theory Spec2Isabelle
  imports Main
begin

section \<open>Data model\<close>

text \<open>
  The entities the route handlers read and write through the ORM. Identifiers and
  timestamps are JavaScript numbers holding integers; optional columns are options.
\<close>

record Persona =
  persona_id :: int
  persona_name :: string
  persona_profileName :: "string option"
  persona_profile :: string

record Character =
  character_id :: int
  character_name :: string
  character_profileName :: "string option"
  character_bio :: "string option"
  character_scenario :: string
  character_personality :: string
  character_firstMessage :: string
  character_exampleDialogue :: string

record CharacterGroup =
  group_id :: int
  group_name :: string
  group_color :: string
  group_isCollapsed :: bool
  group_sortOrder :: int

record ChatSession =
  session_id :: int
  session_personaId :: int
  session_characterId :: int
  session_summary :: "string option"
  session_updatedAt :: int
  session_lastApiRequest :: "string option"

record ChatMessage =
  message_id :: int
  message_sessionId :: int
  message_role :: string
  message_content :: string
  message_createdAt :: int

record MessageVersion =
  version_id :: int
  version_messageId :: int
  version_content :: string
  version_version :: int
  version_isActive :: bool

text \<open>
  The database: one list of rows per table, and the counters of the auto-increment
  primary keys.
\<close>

record db =
  personas :: "Persona list"
  characters :: "Character list"
  characterGroups :: "CharacterGroup list"
  chatSessions :: "ChatSession list"
  chatMessages :: "ChatMessage list"
  messageVersions :: "MessageVersion list"
  settings :: "(string \<times> string) list"
  nextPersonaId :: int
  nextCharacterId :: int
  nextGroupId :: int
  nextSessionId :: int
  nextMessageId :: int
  nextVersionId :: int

text \<open>
  What a handler does with a request: it answers with a status and a body, or an
  exception of the ORM leaves the handler uncaught.
\<close>

datatype prisma_error = P2002 | P2003 | P2025 | OtherError

datatype body =
    NoBody
  | JsonError string
  | JsonMissing string "string list"
  | JsonVersion MessageVersion
  | JsonCharacter Character
  | JsonPersona Persona
  | JsonGroup CharacterGroup
  | JsonSession ChatSession
  | JsonDeleted nat
  | JsonUpstream "string option"
  | JsonErrorOf prisma_error

text \<open>
  \<open>JsonErrorOf e\<close> is the body \<open>{ error: error.message }\<close> of a handler that passes the
  message of the error it caught on to the client: the text is the ORM's own and is left
  to it.
\<close>

text \<open>
  What a streaming handler writes to the client after the event-stream headers: the
  events of the stream, and whether it ended the response.
\<close>

datatype sse_event =
    Connected "int option"
  | Content string
  | DoneMarker
  | VariantSaved int
  | VariantNotSaved string

datatype outcome =
    Respond int body
  | Streamed "sse_event list" bool
  | Uncaught prisma_error

text \<open>
  The delete rule of the relation from MessageVersion to ChatMessage is declared in the
  ORM schema, which is not among the sources; it is a parameter of the operations that
  delete messages.
\<close>

datatype referential_action = Cascade | Restrict

section \<open>ORM operations\<close>

definition findUnique_message :: "db \<Rightarrow> int \<Rightarrow> ChatMessage option" where
  "findUnique_message d mid = find (\<lambda>m. message_id m = mid) (chatMessages d)"

definition findUnique_version :: "db \<Rightarrow> int \<Rightarrow> MessageVersion option" where
  "findUnique_version d vid = find (\<lambda>v. version_id v = vid) (messageVersions d)"

definition findUnique_session :: "db \<Rightarrow> int \<Rightarrow> ChatSession option" where
  "findUnique_session d sid = find (\<lambda>s. session_id s = sid) (chatSessions d)"

definition findUnique_persona :: "db \<Rightarrow> int \<Rightarrow> Persona option" where
  "findUnique_persona d pid = find (\<lambda>p. persona_id p = pid) (personas d)"

definition findUnique_character :: "db \<Rightarrow> int \<Rightarrow> Character option" where
  "findUnique_character d cid = find (\<lambda>c. character_id c = cid) (characters d)"

text \<open>\<open>prisma.chatSession.update({ where: { id }, data: { updatedAt: new Date() } })\<close>\<close>

definition chatSession_touch :: "db \<Rightarrow> int \<Rightarrow> int \<Rightarrow> prisma_error + db" where
  "chatSession_touch d sid now =
     (case findUnique_session d sid of
        None \<Rightarrow> Inl P2025
      | Some _ \<Rightarrow>
          Inr (d\<lparr>chatSessions :=
                 map (\<lambda>s. if session_id s = sid then s\<lparr>session_updatedAt := now\<rparr> else s)
                   (chatSessions d)\<rparr>))"

text \<open>\<open>prisma.messageVersion.updateMany({ where: { messageId }, data: { isActive: false } })\<close>\<close>

definition messageVersion_deactivateAll :: "db \<Rightarrow> int \<Rightarrow> db" where
  "messageVersion_deactivateAll d mid =
     d\<lparr>messageVersions :=
         map (\<lambda>v. if version_messageId v = mid then v\<lparr>version_isActive := False\<rparr> else v)
           (messageVersions d)\<rparr>"

text \<open>\<open>prisma.messageVersion.update({ where: { id }, data })\<close>: the updated row, or P2025.\<close>

definition messageVersion_update ::
  "db \<Rightarrow> int \<Rightarrow> (MessageVersion \<Rightarrow> MessageVersion) \<Rightarrow> prisma_error + (MessageVersion \<times> db)" where
  "messageVersion_update d vid f =
     (case findUnique_version d vid of
        None \<Rightarrow> Inl P2025
      | Some v \<Rightarrow>
          Inr (f v,
               d\<lparr>messageVersions :=
                   map (\<lambda>w. if version_id w = vid then f w else w) (messageVersions d)\<rparr>))"

text \<open>\<open>prisma.chatMessage.update({ where: { id }, data: { content } })\<close>\<close>

definition chatMessage_setContent :: "db \<Rightarrow> int \<Rightarrow> string \<Rightarrow> prisma_error + db" where
  "chatMessage_setContent d mid c =
     (case findUnique_message d mid of
        None \<Rightarrow> Inl P2025
      | Some _ \<Rightarrow>
          Inr (d\<lparr>chatMessages :=
                 map (\<lambda>m. if message_id m = mid then m\<lparr>message_content := c\<rparr> else m)
                   (chatMessages d)\<rparr>))"

text \<open>\<open>prisma.messageVersion.deleteMany({ where: { messageId } })\<close>: the count and the new state.\<close>

definition messageVersion_deleteMany :: "db \<Rightarrow> int \<Rightarrow> nat \<times> db" where
  "messageVersion_deleteMany d mid =
     (length (filter (\<lambda>v. version_messageId v = mid) (messageVersions d)),
      d\<lparr>messageVersions := filter (\<lambda>v. version_messageId v \<noteq> mid) (messageVersions d)\<rparr>)"

text \<open>
  \<open>prisma.chatMessage.deleteMany({ where })\<close>. Under \<open>Restrict\<close> the delete is refused
  while a variant still references one of the messages; under \<open>Cascade\<close> the variants
  of the deleted messages go with them.
\<close>

definition referencedByVariant :: "db \<Rightarrow> (ChatMessage \<Rightarrow> bool) \<Rightarrow> bool" where
  "referencedByVariant d P =
     list_ex (\<lambda>v. version_messageId v \<in> set (map message_id (filter P (chatMessages d))))
       (messageVersions d)"

definition chatMessage_deleteMany ::
  "referential_action \<Rightarrow> db \<Rightarrow> (ChatMessage \<Rightarrow> bool) \<Rightarrow> prisma_error + db" where
  "chatMessage_deleteMany rule d P =
     (if rule = Restrict \<and> referencedByVariant d P then Inl P2003
      else Inr (d\<lparr>chatMessages := filter (\<lambda>m. \<not> P m) (chatMessages d),
                  messageVersions :=
                    filter (\<lambda>v. version_messageId v \<notin> set (map message_id (filter P (chatMessages d))))
                      (messageVersions d)\<rparr>))"

definition chatSession_deleteMany :: "db \<Rightarrow> (ChatSession \<Rightarrow> bool) \<Rightarrow> db" where
  "chatSession_deleteMany d P = d\<lparr>chatSessions := filter (\<lambda>s. \<not> P s) (chatSessions d)\<rparr>"

text \<open>\<open>prisma.persona.delete({ where: { id } })\<close>: P2025 when there is no such row.\<close>

definition persona_delete :: "db \<Rightarrow> int \<Rightarrow> prisma_error + db" where
  "persona_delete d pid =
     (case findUnique_persona d pid of
        None \<Rightarrow> Inl P2025
      | Some _ \<Rightarrow> Inr (d\<lparr>personas := filter (\<lambda>p. persona_id p \<noteq> pid) (personas d)\<rparr>))"

text \<open>The variants of a message: the rows \<open>{ where: { messageId } }\<close> selects.\<close>

definition variantsOf :: "db \<Rightarrow> int \<Rightarrow> MessageVersion list" where
  "variantsOf d mid = filter (\<lambda>v. version_messageId v = mid) (messageVersions d)"

section \<open>Strings\<close>

text \<open>
  A text is the list of its code units, and a \<open>char\<close> is a code unit below 256: the
  texts of this development are those of that range.

  \<open>String.prototype.trim\<close> removes the white space and the line terminators of the
  language from both ends. Below 256 these are TAB, LF, VT, FF, CR, the space and the
  no-break space (U+00A0); the others (U+1680, U+2000 to U+200A, U+2028, U+2029, U+202F,
  U+205F, U+3000 and U+FEFF) are code units that a \<open>char\<close> does not have.
\<close>

definition isSpace :: "char \<Rightarrow> bool" where
  "isSpace c =
     (c \<in> {CHR 0x09, CHR 0x0A, CHR 0x0B, CHR 0x0C, CHR 0x0D, CHR 0x20, CHR 0xA0})"

definition trim :: "string \<Rightarrow> string" where
  "trim s = rev (dropWhile isSpace (rev (dropWhile isSpace s)))"

text \<open>\<open>s.startsWith(p)\<close>\<close>

fun startsWith :: "string \<Rightarrow> string \<Rightarrow> bool" where
  "startsWith s [] = True"
| "startsWith [] (p # ps) = False"
| "startsWith (c # cs) (p # ps) = (c = p \<and> startsWith cs ps)"

text \<open>
  The expansion of a replacement string at one match (\<open>GetSubstitution\<close> of the
  language, for a pattern without capture groups): \<open>$$\<close> is a dollar sign, \<open>$&\<close> the
  matched text, \<open>$`\<close> the text before the match and \<open>$'\<close> the text after it; any
  other character, a dollar sign before a digit included, stands for itself.
\<close>

fun getSubstitution :: "string \<Rightarrow> string \<Rightarrow> string \<Rightarrow> string \<Rightarrow> string" where
  "getSubstitution matched passed rest [] = []"
| "getSubstitution matched passed rest [c] = [c]"
| "getSubstitution matched passed rest (c # c' # r) =
     (if c = CHR ''$'' then
        (if c' = CHR ''$'' then CHR ''$'' # getSubstitution matched passed rest r
         else if c' = CHR ''&'' then matched @ getSubstitution matched passed rest r
         else if c' = CHR 0x60 then passed @ getSubstitution matched passed rest r
         else if c' = CHR 0x27 then rest @ getSubstitution matched passed rest r
         else c # getSubstitution matched passed rest (c' # r))
      else c # getSubstitution matched passed rest (c' # r))"

text \<open>
  \<open>s.replace(/pat/g, rep)\<close> for a pattern that is a fixed, non-empty text, as the
  patterns of the handlers are: the matches are found from left to right and do not
  overlap. \<open>passed\<close> is the text before the current position.
\<close>

function replaceFrom :: "string \<Rightarrow> string \<Rightarrow> string \<Rightarrow> string \<Rightarrow> string" where
  "replaceFrom pat rep passed [] = []"
| "replaceFrom pat rep passed (c # cs) =
     (if pat \<noteq> [] \<and> startsWith (c # cs) pat
      then getSubstitution pat passed (drop (length pat) (c # cs)) rep
           @ replaceFrom pat rep (passed @ pat) (drop (length pat) (c # cs))
      else c # replaceFrom pat rep (passed @ [c]) cs)"
  by pat_completeness auto
termination
  by (relation "measure (\<lambda>(pat, rep, passed, s). length s)") auto

definition replaceAllMatches :: "string \<Rightarrow> string \<Rightarrow> string \<Rightarrow> string" where
  "replaceAllMatches pat rep s = replaceFrom pat rep [] s"

text \<open>
  Every occurrence of a fixed text replaced by another text, taken as it is: the
  replacement that the description of the seeded message speaks of.
\<close>

function substituteAll :: "string \<Rightarrow> string \<Rightarrow> string \<Rightarrow> string" where
  "substituteAll pat rep [] = []"
| "substituteAll pat rep (c # cs) =
     (if pat \<noteq> [] \<and> startsWith (c # cs) pat
      then rep @ substituteAll pat rep (drop (length pat) (c # cs))
      else c # substituteAll pat rep cs)"
  by pat_completeness auto
termination
  by (relation "measure (\<lambda>(pat, rep, s). length s)") auto

section \<open>PUT and DELETE /api/messages/[id]/variants\<close>

text \<open>
  The body of a PUT: \<open>variantId\<close> and \<open>content\<close>, either of which may be absent.
  \<open>!variantId\<close> holds for an absent id and for 0.
\<close>

record put_body =
  put_variantId :: "int option"
  put_content :: "string option"

text \<open>
  The session's timestamp is refreshed when the message and its session are found
  (\<open>if (message?.session)\<close>).
\<close>

definition touchSessionOf :: "db \<Rightarrow> int \<Rightarrow> int \<Rightarrow> prisma_error + db" where
  "touchSessionOf d messageId now =
     (case findUnique_message d messageId of
        None \<Rightarrow> Inr d
      | Some m \<Rightarrow>
          (case findUnique_session d (message_sessionId m) of
             None \<Rightarrow> Inr d
           | Some s \<Rightarrow> chatSession_touch d (session_id s) now))"

definition variants_PUT :: "int \<Rightarrow> db \<Rightarrow> int \<Rightarrow> put_body \<Rightarrow> outcome \<times> db" where
  "variants_PUT now d messageId b =
     (case put_variantId b of
        None \<Rightarrow> (Respond 400 (JsonError ''Variant ID is required''), d)
      | Some variantId \<Rightarrow>
          if variantId = 0 then (Respond 400 (JsonError ''Variant ID is required''), d)
          else
            (case put_content b of
               Some content \<Rightarrow>
                 (case messageVersion_update d variantId (\<lambda>v. v\<lparr>version_content := trim content\<rparr>) of
                    Inl _ \<Rightarrow> (Respond 500 (JsonError ''Failed to update variant''), d)
                  | Inr (updatedVariant, d1) \<Rightarrow>
                      (case touchSessionOf d1 messageId now of
                         Inl _ \<Rightarrow> (Respond 500 (JsonError ''Failed to update variant''), d1)
                       | Inr d2 \<Rightarrow> (Respond 200 (JsonVersion updatedVariant), d2)))
             | None \<Rightarrow>
                 (let d1 = messageVersion_deactivateAll d messageId in
                  case messageVersion_update d1 variantId (\<lambda>v. v\<lparr>version_isActive := True\<rparr>) of
                    Inl _ \<Rightarrow> (Respond 500 (JsonError ''Failed to update variant''), d1)
                  | Inr (activeVariant, d2) \<Rightarrow>
                      (case chatMessage_setContent d2 messageId (version_content activeVariant) of
                         Inl _ \<Rightarrow> (Respond 500 (JsonError ''Failed to update variant''), d2)
                       | Inr d3 \<Rightarrow>
                           (case touchSessionOf d3 messageId now of
                              Inl _ \<Rightarrow> (Respond 500 (JsonError ''Failed to update variant''), d3)
                            | Inr d4 \<Rightarrow> (Respond 200 (JsonVersion activeVariant), d4))))))"

definition variants_DELETE :: "int \<Rightarrow> db \<Rightarrow> int \<Rightarrow> outcome \<times> db" where
  "variants_DELETE now d messageId =
     (case messageVersion_deleteMany d messageId of
        (count, d1) \<Rightarrow>
          (case touchSessionOf d1 messageId now of
             Inl _ \<Rightarrow> (Respond 500 (JsonError ''Failed to clean up variants''), d1)
           | Inr d2 \<Rightarrow> (Respond 200 (JsonDeleted count), d2)))"

section \<open>DELETE /api/personas/[id]\<close>

text \<open>The filter \<open>{ session: { personaId } }\<close> on messages.\<close>

definition sessionOfPersona :: "db \<Rightarrow> int \<Rightarrow> ChatMessage \<Rightarrow> bool" where
  "sessionOfPersona d personaId m =
     list_ex (\<lambda>s. session_id s = message_sessionId m \<and> session_personaId s = personaId)
       (chatSessions d)"

definition personas_DELETE :: "referential_action \<Rightarrow> db \<Rightarrow> int \<Rightarrow> outcome \<times> db" where
  "personas_DELETE rule d personaId =
     (case chatMessage_deleteMany rule d (sessionOfPersona d personaId) of
        Inl e \<Rightarrow> (Uncaught e, d)
      | Inr d1 \<Rightarrow>
          (let d2 = chatSession_deleteMany d1 (\<lambda>s. session_personaId s = personaId) in
           case persona_delete d2 personaId of
             Inl e \<Rightarrow> (Uncaught e, d2)
           | Inr d3 \<Rightarrow> (Respond 204 NoBody, d3)))"

section \<open>Variant navigation on the chat page\<close>

text \<open>
  The part of the page's state that \<open>navigateVariant\<close> reads and writes. The selection
  saved in the browser's local storage is keyed by the route's session id and the
  message id; nothing is saved while the route has no id.
\<close>

record ClientMessage =
  cm_messageId :: "int option"
  cm_content :: string

record page_state =
  routeId :: "string option"
  messages :: "ClientMessage list"
  messageVariants :: "int \<rightharpoonup> MessageVersion list"
  currentVariantIndex :: "int \<rightharpoonup> int"
  variantDisplayContent :: "int \<rightharpoonup> string"
  localStorage :: "(string \<times> int) \<rightharpoonup> int"

datatype direction = Prev | Next

definition saveVariantSelection :: "page_state \<Rightarrow> int \<Rightarrow> int \<Rightarrow> page_state" where
  "saveVariantSelection st messageId variantIndex =
     (case routeId st of
        None \<Rightarrow> st
      | Some rid \<Rightarrow> st\<lparr>localStorage := (localStorage st)((rid, messageId) \<mapsto> variantIndex)\<rparr>)"

text \<open>\<open>variants[i]\<close>: undefined outside the array.\<close>

definition arrayAt :: "'a list \<Rightarrow> int \<Rightarrow> 'a option" where
  "arrayAt xs i = (if 0 \<le> i \<and> i < int (length xs) then Some (xs ! nat i) else None)"

definition navigateVariant :: "page_state \<Rightarrow> int \<Rightarrow> direction \<Rightarrow> page_state" where
  "navigateVariant st messageId dir =
     (let variants = (case messageVariants st messageId of None \<Rightarrow> [] | Some vs \<Rightarrow> vs);
          totalOptions = int (length variants) + 1
      in if totalOptions \<le> 1 then st
         else
           let currentIndex = (case currentVariantIndex st messageId of None \<Rightarrow> 0 | Some i \<Rightarrow> i);
               stepped = (case dir of
                            Prev \<Rightarrow> (if currentIndex > 0 then currentIndex - 1 else totalOptions - 1)
                          | Next \<Rightarrow> (if currentIndex < totalOptions - 1 then currentIndex + 1 else 0));
               newIndex = max 0 (min stepped (totalOptions - 1));
               st1 = st\<lparr>currentVariantIndex := (currentVariantIndex st)(messageId \<mapsto> newIndex)\<rparr>;
               st2 = saveVariantSelection st1 messageId newIndex
           in if newIndex = 0 then
                (case find (\<lambda>m. cm_messageId m = Some messageId) (messages st2) of
                   None \<Rightarrow> st2
                 | Some originalMessage \<Rightarrow>
                     st2\<lparr>variantDisplayContent :=
                           (variantDisplayContent st2)(messageId \<mapsto> cm_content originalMessage)\<rparr>)
              else
                (case arrayAt variants (newIndex - 1) of
                   None \<Rightarrow> st2
                 | Some selectedVariant \<Rightarrow>
                     st2\<lparr>variantDisplayContent :=
                           (variantDisplayContent st2)(messageId \<mapsto> version_content selectedVariant)\<rparr>))"

text \<open>The pointer of a message: \<open>currentVariantIndex.get(messageId) || 0\<close>.\<close>

definition pointer :: "page_state \<Rightarrow> int \<Rightarrow> int" where
  "pointer st messageId = (case currentVariantIndex st messageId of None \<Rightarrow> 0 | Some i \<Rightarrow> i)"

section \<open>Request bodies\<close>

text \<open>
  A field of a JSON body that the handlers treat as text: absent, \<open>null\<close> or a string.
  A field is truthy when it is a non-empty string.
\<close>

datatype field = Undefined | Null | Str string

definition truthy :: "field \<Rightarrow> bool" where
  "truthy f = (case f of Str s \<Rightarrow> s \<noteq> [] | _ \<Rightarrow> False)"

text \<open>\<open>f || d\<close>\<close>

definition orElse :: "field \<Rightarrow> string \<Rightarrow> string" where
  "orElse f d = (case f of Str s \<Rightarrow> (if s \<noteq> [] then s else d) | _ \<Rightarrow> d)"

text \<open>\<open>...(f && { f })\<close>: the column is written only for a truthy field.\<close>

definition whenTruthy :: "field \<Rightarrow> string option" where
  "whenTruthy f = (case f of Str s \<Rightarrow> (if s \<noteq> [] then Some s else None) | _ \<Rightarrow> None)"

text \<open>\<open>...(f !== undefined && { f })\<close>: the column keeps its value for an absent field.\<close>

definition whenDefined :: "field \<Rightarrow> string option \<Rightarrow> string option" where
  "whenDefined f old = (case f of Undefined \<Rightarrow> old | Null \<Rightarrow> None | Str s \<Rightarrow> Some s)"

section \<open>Characters and personas\<close>

text \<open>
  Modelled from the spec: the unique index on (name, profileName) of Character and of
  Persona is declared in the ORM schema, which is not among the sources. Whether two
  rows without a profileName count as equal under the index is the database's rule for
  NULL in a unique index; it is a parameter. The README names PostgreSQL as the
  database, where a unique index holds NULLs distinct unless it is declared otherwise.
\<close>

datatype nulls_rule = NullsDistinct | NullsNotDistinct

definition uniqueViolation ::
  "nulls_rule \<Rightarrow> (string \<times> string option) list \<Rightarrow> string \<times> string option \<Rightarrow> bool" where
  "uniqueViolation nulls keys k =
     (k \<in> set keys \<and> (case snd k of None \<Rightarrow> nulls = NullsNotDistinct | Some _ \<Rightarrow> True))"

definition characterKey :: "Character \<Rightarrow> string \<times> string option" where
  "characterKey c = (character_name c, character_profileName c)"

definition personaKey :: "Persona \<Rightarrow> string \<times> string option" where
  "personaKey p = (persona_name p, persona_profileName p)"

text \<open>\<open>prisma.character.create({ data })\<close>: the id comes from the table's counter.\<close>

definition character_create :: "nulls_rule \<Rightarrow> db \<Rightarrow> Character \<Rightarrow> prisma_error + (Character \<times> db)" where
  "character_create nulls d c =
     (if uniqueViolation nulls (map characterKey (characters d)) (characterKey c) then Inl P2002
      else let row = c\<lparr>character_id := nextCharacterId d\<rparr>
           in Inr (row, d\<lparr>characters := characters d @ [row],
                            nextCharacterId := nextCharacterId d + 1\<rparr>))"

text \<open>\<open>prisma.character.update({ where: { id }, data })\<close>\<close>

definition character_update ::
  "nulls_rule \<Rightarrow> db \<Rightarrow> int \<Rightarrow> (Character \<Rightarrow> Character) \<Rightarrow> prisma_error + (Character \<times> db)" where
  "character_update nulls d cid f =
     (case findUnique_character d cid of
        None \<Rightarrow> Inl P2025
      | Some c \<Rightarrow>
          if uniqueViolation nulls
               (map characterKey (filter (\<lambda>x. character_id x \<noteq> cid) (characters d)))
               (characterKey (f c))
          then Inl P2002
          else Inr (f c,
                    d\<lparr>characters := map (\<lambda>x. if character_id x = cid then f x else x) (characters d)\<rparr>))"

definition persona_create :: "nulls_rule \<Rightarrow> db \<Rightarrow> Persona \<Rightarrow> prisma_error + (Persona \<times> db)" where
  "persona_create nulls d p =
     (if uniqueViolation nulls (map personaKey (personas d)) (personaKey p) then Inl P2002
      else let row = p\<lparr>persona_id := nextPersonaId d\<rparr>
           in Inr (row, d\<lparr>personas := personas d @ [row], nextPersonaId := nextPersonaId d + 1\<rparr>))"

definition persona_update ::
  "nulls_rule \<Rightarrow> db \<Rightarrow> int \<Rightarrow> (Persona \<Rightarrow> Persona) \<Rightarrow> prisma_error + (Persona \<times> db)" where
  "persona_update nulls d pid f =
     (case findUnique_persona d pid of
        None \<Rightarrow> Inl P2025
      | Some p \<Rightarrow>
          if uniqueViolation nulls
               (map personaKey (filter (\<lambda>x. persona_id x \<noteq> pid) (personas d)))
               (personaKey (f p))
          then Inl P2002
          else Inr (f p,
                    d\<lparr>personas := map (\<lambda>x. if persona_id x = pid then f x else x) (personas d)\<rparr>))"

record character_body =
  cb_name :: field
  cb_profileName :: field
  cb_bio :: field
  cb_scenario :: field
  cb_personality :: field
  cb_firstMessage :: field
  cb_exampleDialogue :: field

definition noFirstMessage :: string where
  "noFirstMessage = ''You didn'' @ [CHR 0x27] @ ''t enter a first message for this character :(''"

text \<open>The \<open>data\<close> of the create and of the update of a character.\<close>

definition characterData :: "character_body \<Rightarrow> Character" where
  "characterData b =
     \<lparr>character_id = 0,
      character_name = orElse (cb_name b) [],
      character_profileName = whenTruthy (cb_profileName b),
      character_bio = whenTruthy (cb_bio b),
      character_scenario = orElse (cb_scenario b) [],
      character_personality = orElse (cb_personality b) [],
      character_firstMessage = orElse (cb_firstMessage b) noFirstMessage,
      character_exampleDialogue = orElse (cb_exampleDialogue b) []\<rparr>"

definition characterChanges :: "character_body \<Rightarrow> Character \<Rightarrow> Character" where
  "characterChanges b c =
     c\<lparr>character_name := orElse (cb_name b) [],
       character_scenario := orElse (cb_scenario b) [],
       character_personality := orElse (cb_personality b) [],
       character_firstMessage := orElse (cb_firstMessage b) noFirstMessage,
       character_exampleDialogue := orElse (cb_exampleDialogue b) [],
       character_profileName := whenDefined (cb_profileName b) (character_profileName c),
       character_bio := whenDefined (cb_bio b) (character_bio c)\<rparr>"

text \<open>POST /api/characters\<close>

definition characters_POST :: "nulls_rule \<Rightarrow> db \<Rightarrow> character_body \<Rightarrow> outcome \<times> db" where
  "characters_POST nulls d b =
     (let missing = (if \<not> truthy (cb_name b) then [''name''] else []) in
      if missing \<noteq> [] then (Respond 400 (JsonMissing ''Missing required fields'' missing), d)
      else
        case character_create nulls d (characterData b) of
          Inl P2002 \<Rightarrow>
            (Respond 400
               (JsonError ''A character with this name and profile name combination already exists''), d)
        | Inl e \<Rightarrow> (Uncaught e, d)
        | Inr (character, d') \<Rightarrow> (Respond 201 (JsonCharacter character), d'))"

text \<open>PUT /api/characters/[id]; \<open>Number(id)\<close> is \<open>None\<close> when it is NaN.\<close>

definition characters_PUT :: "nulls_rule \<Rightarrow> db \<Rightarrow> int option \<Rightarrow> character_body \<Rightarrow> outcome \<times> db" where
  "characters_PUT nulls d charId b =
     (case charId of
        None \<Rightarrow> (Respond 400 (JsonError ''Invalid character ID''), d)
      | Some cid \<Rightarrow>
          if \<not> truthy (cb_name b) then (Respond 400 (JsonError ''Name is required''), d)
          else
            (case character_update nulls d cid (characterChanges b) of
              Inl P2002 \<Rightarrow>
                (Respond 400
                   (JsonError ''A character with this name and profile name combination already exists''), d)
            | Inl e \<Rightarrow> (Uncaught e, d)
            | Inr (updated, d') \<Rightarrow> (Respond 200 (JsonCharacter updated), d')))"

record persona_body =
  pb_name :: field
  pb_profileName :: field
  pb_profile :: field

definition personaData :: "persona_body \<Rightarrow> Persona" where
  "personaData b =
     \<lparr>persona_id = 0,
      persona_name = orElse (pb_name b) [],
      persona_profileName = whenTruthy (pb_profileName b),
      persona_profile = orElse (pb_profile b) []\<rparr>"

definition personaChanges :: "persona_body \<Rightarrow> Persona \<Rightarrow> Persona" where
  "personaChanges b p =
     p\<lparr>persona_name := orElse (pb_name b) [],
       persona_profile := orElse (pb_profile b) [],
       persona_profileName := whenDefined (pb_profileName b) (persona_profileName p)\<rparr>"

text \<open>POST /api/personas: an error other than P2002 reaches the outer \<open>catch\<close>.\<close>

definition personas_POST :: "nulls_rule \<Rightarrow> db \<Rightarrow> persona_body \<Rightarrow> outcome \<times> db" where
  "personas_POST nulls d b =
     (if \<not> truthy (pb_name b) \<or> \<not> truthy (pb_profile b)
      then (Respond 400 (JsonError ''Missing name or profile''), d)
      else
        case persona_create nulls d (personaData b) of
          Inl P2002 \<Rightarrow>
            (Respond 400
               (JsonError ''A persona with this name and profile name combination already exists''), d)
        | Inl e \<Rightarrow> (Respond 500 (JsonErrorOf e), d)
        | Inr (persona, d') \<Rightarrow> (Respond 201 (JsonPersona persona), d'))"

text \<open>PUT /api/personas/[id]\<close>

definition personas_PUT :: "nulls_rule \<Rightarrow> db \<Rightarrow> int option \<Rightarrow> persona_body \<Rightarrow> outcome \<times> db" where
  "personas_PUT nulls d personaId b =
     (case personaId of
        None \<Rightarrow> (Respond 400 (JsonError ''Invalid persona ID''), d)
      | Some pid \<Rightarrow>
          if \<not> truthy (pb_name b) \<or> \<not> truthy (pb_profile b)
          then (Respond 400 (JsonError ''Missing name or profile''), d)
          else
            (case persona_update nulls d pid (personaChanges b) of
              Inl P2002 \<Rightarrow>
                (Respond 400
                   (JsonError ''A persona with this name and profile name combination already exists''), d)
            | Inl e \<Rightarrow> (Uncaught e, d)
            | Inr (updated, d') \<Rightarrow> (Respond 200 (JsonPersona updated), d')))"

section \<open>Character groups\<close>

text \<open>
  The name of a group is unique: the unique index is declared in the ORM schema, which
  is not among the sources, and the handlers answer its violation with "A group with
  this name already exists".
\<close>

definition findUnique_group :: "db \<Rightarrow> int \<Rightarrow> CharacterGroup option" where
  "findUnique_group d gid = find (\<lambda>g. group_id g = gid) (characterGroups d)"

definition characterGroup_create :: "db \<Rightarrow> CharacterGroup \<Rightarrow> prisma_error + (CharacterGroup \<times> db)" where
  "characterGroup_create d g =
     (if group_name g \<in> set (map group_name (characterGroups d)) then Inl P2002
      else let row = g\<lparr>group_id := nextGroupId d\<rparr>
           in Inr (row, d\<lparr>characterGroups := characterGroups d @ [row],
                            nextGroupId := nextGroupId d + 1\<rparr>))"

definition characterGroup_update ::
  "db \<Rightarrow> int \<Rightarrow> (CharacterGroup \<Rightarrow> CharacterGroup) \<Rightarrow> prisma_error + (CharacterGroup \<times> db)" where
  "characterGroup_update d gid f =
     (case findUnique_group d gid of
        None \<Rightarrow> Inl P2025
      | Some g \<Rightarrow>
          if group_name (f g)
               \<in> set (map group_name (filter (\<lambda>x. group_id x \<noteq> gid) (characterGroups d)))
          then Inl P2002
          else Inr (f g,
                    d\<lparr>characterGroups :=
                        map (\<lambda>x. if group_id x = gid then f x else x) (characterGroups d)\<rparr>))"

record group_body =
  gb_name :: field
  gb_color :: "string option"
  gb_isCollapsed :: "bool option"

text \<open>\<open>(lastGroup?.sortOrder || 0) + 1\<close>, for the group with the greatest sort order.\<close>

definition nextSortOrder :: "db \<Rightarrow> int" where
  "nextSortOrder d =
     (case characterGroups d of
        [] \<Rightarrow> 0
      | g # gs \<Rightarrow> foldl max (group_sortOrder g) (map group_sortOrder gs)) + 1"

text \<open>POST /api/character-groups. The colour, a text, defaults when it is absent.\<close>

definition groupData :: "db \<Rightarrow> group_body \<Rightarrow> CharacterGroup" where
  "groupData d b =
     \<lparr>group_id = 0, group_name = trim (orElse (gb_name b) []),
      group_color = (case gb_color b of Some c \<Rightarrow> c | None \<Rightarrow> ''#6366f1''),
      group_isCollapsed = False, group_sortOrder = nextSortOrder d\<rparr>"

definition characterGroups_POST :: "db \<Rightarrow> group_body \<Rightarrow> outcome \<times> db" where
  "characterGroups_POST d b =
     (if \<not> truthy (gb_name b) \<or> trim (orElse (gb_name b) []) = []
      then (Respond 400 (JsonError ''Group name is required''), d)
      else
        case characterGroup_create d (groupData d b) of
          Inl P2002 \<Rightarrow> (Respond 400 (JsonError ''A group with this name already exists''), d)
        | Inl e \<Rightarrow> (Respond 500 (JsonError ''Failed to create character group''), d)
        | Inr (g, d') \<Rightarrow> (Respond 201 (JsonGroup g), d'))"

text \<open>
  PUT /api/character-groups/[id]; \<open>parseInt(id)\<close> is \<open>None\<close> when it is NaN. A \<open>null\<close>
  name has no \<open>trim\<close>: the call throws and the handler answers 500.
\<close>

definition groupChanges :: "group_body \<Rightarrow> CharacterGroup \<Rightarrow> CharacterGroup" where
  "groupChanges b g =
     g\<lparr>group_name := (case gb_name b of Str n \<Rightarrow> trim n | _ \<Rightarrow> group_name g),
       group_color := (case gb_color b of Some c \<Rightarrow> c | None \<Rightarrow> group_color g),
       group_isCollapsed := (case gb_isCollapsed b of Some c \<Rightarrow> c | None \<Rightarrow> group_isCollapsed g)\<rparr>"

definition characterGroups_PUT :: "db \<Rightarrow> int option \<Rightarrow> group_body \<Rightarrow> outcome \<times> db" where
  "characterGroups_PUT d groupId b =
     (case groupId of
        None \<Rightarrow> (Respond 400 (JsonError ''Invalid group ID''), d)
      | Some gid \<Rightarrow>
          if gb_name b = Null
          then (Respond 500 (JsonError ''Failed to update character group''), d)
          else
            (case characterGroup_update d gid (groupChanges b) of
               Inl P2002 \<Rightarrow> (Respond 400 (JsonError ''A group with this name already exists''), d)
             | Inl P2025 \<Rightarrow> (Respond 404 (JsonError ''Group not found''), d)
             | Inl e \<Rightarrow> (Respond 500 (JsonError ''Failed to update character group''), d)
             | Inr (g, d') \<Rightarrow> (Respond 200 (JsonGroup g), d')))"

section \<open>POST /api/sessions\<close>

text \<open>
  \<open>prisma.chatSession.create({ data: { personaId, characterId } })\<close>: the relations to
  Persona and Character are foreign keys, so both rows must exist.
\<close>

definition chatSession_create :: "db \<Rightarrow> int \<Rightarrow> int \<Rightarrow> int \<Rightarrow> prisma_error + (ChatSession \<times> db)" where
  "chatSession_create d now personaId characterId =
     (if findUnique_persona d personaId = None \<or> findUnique_character d characterId = None
      then Inl P2003
      else let row = \<lparr>session_id = nextSessionId d, session_personaId = personaId,
                       session_characterId = characterId, session_summary = None,
                       session_updatedAt = now, session_lastApiRequest = None\<rparr>
           in Inr (row, d\<lparr>chatSessions := chatSessions d @ [row],
                            nextSessionId := nextSessionId d + 1\<rparr>))"

text \<open>\<open>prisma.chatMessage.create({ data: { sessionId, role, content } })\<close>\<close>

definition chatMessage_create ::
  "db \<Rightarrow> int \<Rightarrow> int \<Rightarrow> string \<Rightarrow> string \<Rightarrow> prisma_error + (ChatMessage \<times> db)" where
  "chatMessage_create d now sessionId role content =
     (if findUnique_session d sessionId = None then Inl P2003
      else let row = \<lparr>message_id = nextMessageId d, message_sessionId = sessionId,
                       message_role = role, message_content = content,
                       message_createdAt = now\<rparr>
           in Inr (row, d\<lparr>chatMessages := chatMessages d @ [row],
                            nextMessageId := nextMessageId d + 1\<rparr>))"

text \<open>The ids of the body are numbers; \<open>!personaId\<close> holds for an absent id and for 0.\<close>

record session_body =
  sb_personaId :: "int option"
  sb_characterId :: "int option"

definition falsyId :: "int option \<Rightarrow> bool" where
  "falsyId i = (case i of None \<Rightarrow> True | Some n \<Rightarrow> n = 0)"

definition idOf :: "int option \<Rightarrow> int" where
  "idOf i = (case i of None \<Rightarrow> 0 | Some n \<Rightarrow> n)"

definition seedContent :: "Persona \<Rightarrow> Character \<Rightarrow> string" where
  "seedContent persona character =
     replaceAllMatches ''{{char}}'' (character_name character)
       (replaceAllMatches ''{{user}}'' (persona_name persona) (character_firstMessage character))"

definition sessions_POST :: "int \<Rightarrow> db \<Rightarrow> session_body \<Rightarrow> outcome \<times> db" where
  "sessions_POST now d b =
     (if falsyId (sb_personaId b) \<or> falsyId (sb_characterId b)
      then (Respond 400 (JsonError ''Missing personaId or characterId''), d)
      else
        (case chatSession_create d now (idOf (sb_personaId b)) (idOf (sb_characterId b)) of
           Inl e \<Rightarrow> (Respond 500 (JsonErrorOf e), d)
         | Inr (session, d1) \<Rightarrow>
             (case (findUnique_persona d1 (idOf (sb_personaId b)),
                    findUnique_character d1 (idOf (sb_characterId b))) of
                (Some persona, Some character) \<Rightarrow>
                  (case chatMessage_create d1 now (session_id session) ''assistant''
                          (seedContent persona character) of
                     Inl e \<Rightarrow> (Respond 500 (JsonErrorOf e), d1)
                   | Inr (_, d2) \<Rightarrow> (Respond 201 (JsonSession session), d2))
              | _ \<Rightarrow> (Respond 201 (JsonSession session), d1))))"

section \<open>POST /api/messages/[id]/variants\<close>

subsection \<open>The table of variants under concurrent requests\<close>

text \<open>
  \<open>prisma.messageVersion.create\<close>: the pair (messageId, version) is unique (the
  handler looks rows up by \<open>messageId_version\<close> and handles P2002 on create), and the
  message must exist.
\<close>

definition findUnique_messageId_version :: "db \<Rightarrow> int \<Rightarrow> int \<Rightarrow> MessageVersion option" where
  "findUnique_messageId_version d mid ver =
     find (\<lambda>v. version_messageId v = mid \<and> version_version v = ver) (messageVersions d)"

definition messageVersion_create ::
  "db \<Rightarrow> int \<Rightarrow> string \<Rightarrow> int \<Rightarrow> prisma_error + (MessageVersion \<times> db)" where
  "messageVersion_create d mid content ver =
     (if findUnique_messageId_version d mid ver \<noteq> None then Inl P2002
      else if findUnique_message d mid = None then Inl P2003
      else let row = \<lparr>version_id = nextVersionId d, version_messageId = mid,
                       version_content = content, version_version = ver,
                       version_isActive = False\<rparr>
           in Inr (row, d\<lparr>messageVersions := messageVersions d @ [row],
                            nextVersionId := nextVersionId d + 1\<rparr>))"

text \<open>
  \<open>findFirst({ where: { messageId }, orderBy: { version: 'desc' } })\<close>: the variant of
  the message with the greatest version.
\<close>

definition findFirst_version_desc :: "db \<Rightarrow> int \<Rightarrow> MessageVersion option" where
  "findFirst_version_desc d mid =
     (case variantsOf d mid of
        [] \<Rightarrow> None
      | v # vs \<Rightarrow>
          Some (foldl (\<lambda>best w. if version_version best < version_version w then w else best) v vs))"

text \<open>
  The handler is not alone: while it awaits an operation on the table, other requests
  may create variants. What they create is given as a list of batches, one batch
  (message id, version, content) taken before each access of the handler to the table;
  a create of theirs that the database refuses changes nothing.
\<close>

type_synonym batch = "(int \<times> int \<times> string) list"

definition applyBatch :: "batch \<Rightarrow> db \<Rightarrow> db" where
  "applyBatch b d =
     foldl (\<lambda>d' (mid, ver, content).
              case messageVersion_create d' mid content ver of
                Inl _ \<Rightarrow> d'
              | Inr (_, d'') \<Rightarrow> d'') d b"

definition afterOthers :: "batch list \<Rightarrow> db \<Rightarrow> db" where
  "afterOthers bs d = foldl (\<lambda>d' b. applyBatch b d') d bs"

definition access :: "batch list \<Rightarrow> db \<Rightarrow> db \<times> batch list" where
  "access others d = (case others of [] \<Rightarrow> (d, []) | b # bs \<Rightarrow> (applyBatch b d, bs))"

subsection \<open>Allocating the next version\<close>

definition maxRetries :: nat where
  "maxRetries = 3"

text \<open>
  The state of the allocation loop: the candidate version, the retry counter, what the
  loop logged for each attempt (the last version found, the candidate, whether the
  candidate was taken) and the waits between attempts, in milliseconds.
\<close>

record allocation =
  nextVersion :: int
  retryCount :: nat
  attempts :: "(int option \<times> int \<times> bool) list"
  slept :: "nat list"
  alloc_db :: db
  alloc_others :: "batch list"

function allocate :: "int \<Rightarrow> allocation \<Rightarrow> allocation" where
  "allocate messageId a =
     (if retryCount a < maxRetries then
        (case access (alloc_others a) (alloc_db a) of
           (d1, others1) \<Rightarrow>
             (let lastVersion = findFirst_version_desc d1 messageId;
                  candidate = (case lastVersion of None \<Rightarrow> 0 | Some v \<Rightarrow> version_version v) + 1
              in case access others1 d1 of
                   (d2, others2) \<Rightarrow>
                     (case findUnique_messageId_version d2 messageId candidate of
                        None \<Rightarrow>
                          a\<lparr>nextVersion := candidate,
                            attempts := attempts a @ [(map_option version_version lastVersion, candidate, False)],
                            alloc_db := d2, alloc_others := others2\<rparr>
                      | Some existingVersion \<Rightarrow>
                          allocate messageId
                            (a\<lparr>nextVersion := candidate,
                               retryCount := retryCount a + 1,
                               attempts := attempts a @ [(map_option version_version lastVersion, candidate, True)],
                               slept := slept a @
                                 (if retryCount a + 1 < maxRetries
                                  then [50 + (retryCount a + 1) * 25] else []),
                               alloc_db := d2, alloc_others := others2\<rparr>))))
      else a)"
  by pat_completeness auto
termination
  by (relation "measure (\<lambda>(messageId, a). maxRetries - retryCount a)") auto

declare allocate.simps [simp del]

definition allocateVersion :: "db \<Rightarrow> int \<Rightarrow> batch list \<Rightarrow> allocation" where
  "allocateVersion d messageId others =
     allocate messageId
       \<lparr>nextVersion = 1, retryCount = 0, attempts = [], slept = [],
        alloc_db = d, alloc_others = others\<rparr>"


definition taken :: "int option \<times> int \<times> bool \<Rightarrow> bool" where
  "taken attempt = snd (snd attempt)"

subsection \<open>The upstream answer and the client\<close>

text \<open>
  What the handler cannot decide: the answer of the language-model API and the
  behaviour of the client. A streamed answer is read chunk by chunk; each read is an
  await, during which the request may emit \<open>close\<close> or \<open>aborted\<close> or the response may
  stop being writable. The lines of a chunk are given as the handler classifies them
  after \<open>JSON.parse\<close>: the end marker, a text delta (whose write to the client may
  throw) or a line that does not parse. After the last step the stream is done.
\<close>

datatype client_event = ReqClose | ReqAborted | ResDestroyed

datatype sse_line = DoneLine | DeltaLine string | DeltaWriteThrows string | MalformedLine

datatype read_result = ReadDone | ReadChunk "sse_line list" | ReadError

type_synonym read_step = "client_event list \<times> read_result"

record upstream =
  up_fetchFails :: bool
  up_ok :: bool
  up_status :: int
  up_content :: "string option"
  up_reader :: bool
  up_reads :: "read_step list"

text \<open>
  The environment of one request: the clock, what other requests create meanwhile, the
  JSON text of the request sent upstream (the prompt assembled from persona, character,
  summary and history, which the handler stores and does not read again), the upstream
  answer, and the events of the client while the handler saves.
\<close>

record post_env =
  env_now :: int
  env_others :: "batch list"
  env_payload :: string
  env_upstream :: upstream
  env_lateEvents :: "client_event list"

subsection \<open>Relaying the stream of a variant\<close>

record variant_stream =
  vs_assistantText :: string
  vs_clientDisconnected :: bool
  vs_streamCompletedNaturally :: bool
  vs_resOpen :: bool
  vs_sent :: "sse_event list"

text \<open>\<open>canWriteToResponse\<close>: \<open>!clientDisconnected && !res.destroyed && res.writable\<close>\<close>

definition canWriteToResponse :: "variant_stream \<Rightarrow> bool" where
  "canWriteToResponse st = (\<not> vs_clientDisconnected st \<and> vs_resOpen st)"

definition onEvent :: "variant_stream \<Rightarrow> client_event \<Rightarrow> variant_stream" where
  "onEvent st e =
     (case e of
        ReqClose \<Rightarrow> st\<lparr>vs_clientDisconnected := True\<rparr>
      | ReqAborted \<Rightarrow> st\<lparr>vs_clientDisconnected := True\<rparr>
      | ResDestroyed \<Rightarrow> st\<lparr>vs_resOpen := False\<rparr>)"

text \<open>
  The loop over the lines of one chunk. A throw of the write is swallowed by the
  \<open>catch\<close> around the parse, after the delta has been accumulated.
\<close>

fun variantLines :: "variant_stream \<Rightarrow> sse_line list \<Rightarrow> variant_stream" where
  "variantLines st [] = st"
| "variantLines st (DoneLine # rest) =
     (if \<not> vs_clientDisconnected st \<and> canWriteToResponse st
      then st\<lparr>vs_streamCompletedNaturally := True, vs_sent := vs_sent st @ [DoneMarker]\<rparr>
      else st)"
| "variantLines st (line # rest) =
     (let st1 =
        (case line of
           DeltaLine delta \<Rightarrow>
             if delta \<noteq> [] \<and> canWriteToResponse st
             then st\<lparr>vs_assistantText := vs_assistantText st @ delta,
                     vs_sent := vs_sent st @ [Content delta]\<rparr>
             else st
         | DeltaWriteThrows delta \<Rightarrow>
             if delta \<noteq> [] \<and> canWriteToResponse st
             then st\<lparr>vs_assistantText := vs_assistantText st @ delta\<rparr>
             else st
         | _ \<Rightarrow> st)
      in if vs_clientDisconnected st1 \<or> \<not> canWriteToResponse st1 then st1
         else variantLines st1 rest)"

text \<open>The loop over the reads; a throw of the read ends it with the stream not completed.\<close>

fun variantReads :: "variant_stream \<Rightarrow> read_step list \<Rightarrow> variant_stream" where
  "variantReads st [] = st"
| "variantReads st ((events, result) # rest) =
     (let st1 = foldl onEvent st events in
      case result of
        ReadDone \<Rightarrow> st1
      | ReadError \<Rightarrow> st1\<lparr>vs_streamCompletedNaturally := False\<rparr>
      | ReadChunk lines \<Rightarrow>
          if vs_clientDisconnected st1 \<or> \<not> canWriteToResponse st1 then st1
          else (let st2 = variantLines st1 lines in
                if vs_clientDisconnected st2 \<or> \<not> canWriteToResponse st2 then st2
                else variantReads st2 rest))"

definition say :: "variant_stream \<Rightarrow> sse_event \<Rightarrow> variant_stream" where
  "say st e = (if canWriteToResponse st then st\<lparr>vs_sent := vs_sent st @ [e]\<rparr> else st)"

subsection \<open>The handler\<close>

definition hasApiKey :: "db \<Rightarrow> bool" where
  "hasApiKey d = (case map_of (settings d) ''apiKey'' of None \<Rightarrow> False | Some v \<Rightarrow> v \<noteq> [])"

text \<open>\<open>UPDATE chat_sessions SET "lastApiRequest" = ... WHERE id = ...\<close>\<close>

definition storeLastApiRequest :: "db \<Rightarrow> int \<Rightarrow> string \<Rightarrow> db" where
  "storeLastApiRequest d sid payload =
     d\<lparr>chatSessions :=
         map (\<lambda>s. if session_id s = sid then s\<lparr>session_lastApiRequest := Some payload\<rparr> else s)
           (chatSessions d)\<rparr>"

definition generationFailed :: body where
  "generationFailed = JsonError ''Failed to generate message variant''"

text \<open>The answer was not streamed: one create, 201 with the variant, 409 on P2002.\<close>

definition variants_POST_plain ::
  "post_env \<Rightarrow> db \<Rightarrow> int \<Rightarrow> ChatSession \<Rightarrow> int \<Rightarrow> batch list \<Rightarrow> outcome \<times> db" where
  "variants_POST_plain env d messageId session ver others =
     (case up_content (env_upstream env) of
        None \<Rightarrow> (Respond 500 generationFailed, d)
      | Some newContent \<Rightarrow>
          if newContent = [] then (Respond 500 generationFailed, d)
          else
            (case access others d of
               (d1, _) \<Rightarrow>
                 (case messageVersion_create d1 messageId newContent ver of
                    Inl P2002 \<Rightarrow>
                      (Respond 409 (JsonError ''Variant version conflict due to concurrent request''), d1)
                  | Inl e \<Rightarrow> (Respond 500 generationFailed, d1)
                  | Inr (newVariant, d2) \<Rightarrow>
                      (case chatSession_touch d2 (session_id session) (env_now env) of
                         Inl e \<Rightarrow> (Respond 500 generationFailed, d2)
                       | Inr d3 \<Rightarrow> (Respond 201 (JsonVersion newVariant), d3)))))"

text \<open>
  The answer is streamed. After the reads the handler decides: nothing is saved when
  the client is gone; the text is saved when the stream completed and is not empty.
\<close>

definition variants_POST_stream ::
  "post_env \<Rightarrow> db \<Rightarrow> int \<Rightarrow> ChatSession \<Rightarrow> int \<Rightarrow> batch list \<Rightarrow> outcome \<times> db" where
  "variants_POST_stream env d messageId session ver others =
     (let st0 = \<lparr>vs_assistantText = [], vs_clientDisconnected = False,
                  vs_streamCompletedNaturally = False, vs_resOpen = True,
                  vs_sent = [Connected (Some ver)]\<rparr>
      in if \<not> up_reader (env_upstream env) then (Streamed (vs_sent st0) True, d)
         else
           (let st = variantReads st0 (up_reads (env_upstream env));
                finalClientDisconnectCheck = (vs_clientDisconnected st \<or> \<not> canWriteToResponse st)
            in if finalClientDisconnectCheck then
                 (let st1 = say st (VariantNotSaved ''client_disconnected'')
                  in (Streamed (vs_sent st1) (canWriteToResponse st1), d))
               else if vs_streamCompletedNaturally st \<and> vs_assistantText st \<noteq> [] then
                 (case access others d of
                    (d1, _) \<Rightarrow>
                      (case messageVersion_create d1 messageId (vs_assistantText st) ver of
                         Inl P2002 \<Rightarrow>
                           (let st1 = say (foldl onEvent st (env_lateEvents env))
                                        (VariantNotSaved ''race_condition'')
                            in (Streamed (vs_sent st1) (canWriteToResponse st1), d1))
                       | Inl e \<Rightarrow>
                           (let st1 = say (foldl onEvent st (env_lateEvents env))
                                        (VariantNotSaved ''database_error'')
                            in (Streamed (vs_sent st1) False, d1))
                       | Inr (_, d2) \<Rightarrow>
                           (case chatSession_touch d2 (session_id session) (env_now env) of
                              Inl e \<Rightarrow>
                                (let st1 = say (foldl onEvent st (env_lateEvents env))
                                             (VariantNotSaved ''database_error'')
                                 in (Streamed (vs_sent st1) False, d2))
                            | Inr d3 \<Rightarrow>
                                (let st1 = say (foldl onEvent st (env_lateEvents env))
                                             (VariantSaved ver)
                                 in (Streamed (vs_sent st1) (canWriteToResponse st1), d3)))))
               else
                 (let st1 = say st (VariantNotSaved ''no_content'')
                  in (Streamed (vs_sent st1) (canWriteToResponse st1), d))))"

text \<open>
  POST /api/messages/[id]/variants, for a numeric id; \<open>stream\<close> is the flag of the body.
\<close>

definition variants_POST :: "post_env \<Rightarrow> db \<Rightarrow> int \<Rightarrow> bool \<Rightarrow> outcome \<times> db" where
  "variants_POST env d messageId stream =
     (case findUnique_message d messageId of
        None \<Rightarrow> (Respond 404 (JsonError ''Message not found''), d)
      | Some message \<Rightarrow>
          if message_role message \<noteq> ''assistant''
          then (Respond 400 (JsonError ''Can only generate variants for assistant messages''), d)
          else
            (let a = allocateVersion d messageId (env_others env); d1 = alloc_db a
             in if retryCount a \<ge> maxRetries
                then (Respond 500
                        (JsonError ''Failed to allocate variant version due to concurrency''), d1)
                else if \<not> hasApiKey d1
                then (Respond 401 (JsonError ''API key not configured in settings''), d1)
                else
                  (case findUnique_session d (message_sessionId message) of
                     None \<Rightarrow> (Respond 500 generationFailed, d1)
                   | Some session \<Rightarrow>
                       (let d2 = storeLastApiRequest d1 (session_id session) (env_payload env)
                        in if up_fetchFails (env_upstream env) \<or> \<not> up_ok (env_upstream env)
                           then (Respond 500 generationFailed, d2)
                           else if \<not> stream
                           then variants_POST_plain env d2 messageId session (nextVersion a)
                                  (alloc_others a)
                           else variants_POST_stream env d2 messageId session (nextVersion a)
                                  (alloc_others a)))))"

text \<open>
  A stream is aborted before it completes when the client does something during one of
  the reads that the handler awaits, the read that reports the end included.
\<close>

fun abortedBeforeEnd :: "read_step list \<Rightarrow> bool" where
  "abortedBeforeEnd [] = False"
| "abortedBeforeEnd ((events, result) # rest) =
     (events \<noteq> [] \<or> (case result of ReadChunk _ \<Rightarrow> abortedBeforeEnd rest | _ \<Rightarrow> False))"

section \<open>POST /api/chat\<close>

subsection \<open>Saving the assistant's message\<close>

text \<open>
  \<open>findFirst({ where: { sessionId }, orderBy: { createdAt: 'desc' } })\<close>: the latest
  message of the session.
\<close>

definition findFirst_message_desc :: "db \<Rightarrow> int \<Rightarrow> ChatMessage option" where
  "findFirst_message_desc d sid =
     (case filter (\<lambda>m. message_sessionId m = sid) (chatMessages d) of
        [] \<Rightarrow> None
      | m # ms \<Rightarrow>
          Some (foldl (\<lambda>best x. if message_createdAt best < message_createdAt x then x else best) m ms))"

text \<open>
  \<open>saveAssistantMessage\<close>: the text is appended to the latest message when that is the
  assistant's, after an empty line, and is a new message otherwise; then the session's
  timestamp is refreshed. An error of the ORM leaves what was written before it.
\<close>

definition saveAssistantMessage :: "int \<Rightarrow> int \<Rightarrow> db \<Rightarrow> string \<Rightarrow> prisma_error option \<times> db" where
  "saveAssistantMessage now sid d content =
     (case (case findFirst_message_desc d sid of
              None \<Rightarrow> map_sum id snd (chatMessage_create d now sid ''assistant'' content)
            | Some lastMessage \<Rightarrow>
                if message_role lastMessage = ''assistant''
                then chatMessage_setContent d (message_id lastMessage)
                       (message_content lastMessage @ [CHR 0x0A, CHR 0x0A] @ content)
                else map_sum id snd (chatMessage_create d now sid ''assistant'' content)) of
        Inl e \<Rightarrow> (Some e, d)
      | Inr d1 \<Rightarrow>
          (case chatSession_touch d1 sid now of
             Inl e \<Rightarrow> (Some e, d1)
           | Inr d2 \<Rightarrow> (None, d2)))"

subsection \<open>Relaying the stream of a reply\<close>

text \<open>
  The state of the streaming part of the handler, the database included, since the
  handlers of the client's events write to it. An operation of the ORM that the handler
  or an event handler awaits is taken to complete before the next event of the client
  or the next read is handled: two saves never overlap.
\<close>

record chat_stream =
  cs_assistantText :: string
  cs_streamCompleted :: bool
  cs_messageSaved :: bool
  cs_clientDisconnected :: bool
  cs_resOpen :: bool
  cs_sent :: "sse_event list"
  cs_db :: db

definition chatCanWrite :: "chat_stream \<Rightarrow> bool" where
  "chatCanWrite st = (\<not> cs_clientDisconnected st \<and> cs_resOpen st)"

text \<open>\<open>savePartialMessage\<close>: an error of the save is logged and the flag stays down.\<close>

definition savePartialMessage :: "int \<Rightarrow> int \<Rightarrow> chat_stream \<Rightarrow> chat_stream" where
  "savePartialMessage now sid st =
     (if \<not> cs_messageSaved st \<and> trim (cs_assistantText st) \<noteq> [] then
        (case saveAssistantMessage now sid (cs_db st) (cs_assistantText st) of
           (None, d') \<Rightarrow> st\<lparr>cs_db := d', cs_messageSaved := True\<rparr>
         | (Some e, d') \<Rightarrow> st\<lparr>cs_db := d'\<rparr>)
      else st)"

text \<open>The handlers of \<open>close\<close> and \<open>aborted\<close>; the response may also stop being writable.\<close>

definition onChatEvent :: "int \<Rightarrow> int \<Rightarrow> chat_stream \<Rightarrow> client_event \<Rightarrow> chat_stream" where
  "onChatEvent now sid st e =
     (case e of
        ResDestroyed \<Rightarrow> st\<lparr>cs_resOpen := False\<rparr>
      | _ \<Rightarrow>
          (let st1 = st\<lparr>cs_clientDisconnected := True\<rparr>
           in if \<not> cs_streamCompleted st1 then savePartialMessage now sid st1 else st1))"

text \<open>
  The loop over the lines of one chunk. A delta is accumulated before the handler tries
  to write it; a write that cannot be done or that throws marks the client as gone.
\<close>

fun chatLines :: "chat_stream \<Rightarrow> sse_line list \<Rightarrow> chat_stream" where
  "chatLines st [] = st"
| "chatLines st (DoneLine # rest) =
     (if chatCanWrite st then st\<lparr>cs_sent := cs_sent st @ [DoneMarker]\<rparr> else st)"
| "chatLines st (DeltaLine delta # rest) =
     (if delta = [] then
        (if cs_clientDisconnected st \<or> \<not> chatCanWrite st then st else chatLines st rest)
      else
        (let st1 = st\<lparr>cs_assistantText := cs_assistantText st @ delta\<rparr>
         in if chatCanWrite st1 then
              (let st2 = st1\<lparr>cs_sent := cs_sent st1 @ [Content delta]\<rparr>
               in if cs_clientDisconnected st2 \<or> \<not> chatCanWrite st2 then st2
                  else chatLines st2 rest)
            else st1\<lparr>cs_clientDisconnected := True\<rparr>))"
| "chatLines st (DeltaWriteThrows delta # rest) =
     (if delta = [] then
        (if cs_clientDisconnected st \<or> \<not> chatCanWrite st then st else chatLines st rest)
      else
        (let st1 = st\<lparr>cs_assistantText := cs_assistantText st @ delta\<rparr>
         in st1\<lparr>cs_clientDisconnected := True\<rparr>))"
| "chatLines st (MalformedLine # rest) =
     (if cs_clientDisconnected st \<or> \<not> chatCanWrite st then st else chatLines st rest)"

text \<open>The loop over the reads; the flag of the result tells that a read threw.\<close>

fun chatReads :: "int \<Rightarrow> int \<Rightarrow> chat_stream \<Rightarrow> read_step list \<Rightarrow> chat_stream \<times> bool" where
  "chatReads now sid st [] = (st, False)"
| "chatReads now sid st ((events, result) # rest) =
     (let st1 = foldl (onChatEvent now sid) st events in
      case result of
        ReadDone \<Rightarrow> (st1, False)
      | ReadError \<Rightarrow> (st1, True)
      | ReadChunk lines \<Rightarrow>
          if cs_clientDisconnected st1 \<or> \<not> chatCanWrite st1 then (st1, False)
          else (let st2 = chatLines st1 lines in
                if cs_clientDisconnected st2 \<or> \<not> chatCanWrite st2 then (st2, False)
                else chatReads now sid st2 rest))"

text \<open>What the handler does after the loop, and in its \<open>catch\<close> when a read threw.\<close>

definition afterReads :: "int \<Rightarrow> int \<Rightarrow> chat_stream \<times> bool \<Rightarrow> chat_stream" where
  "afterReads now sid r =
     (case r of
        (st, True) \<Rightarrow>
          if \<not> cs_streamCompleted st \<and> \<not> cs_messageSaved st then savePartialMessage now sid st
          else st
      | (st, False) \<Rightarrow>
          (let st1 = (if \<not> cs_clientDisconnected st then st\<lparr>cs_streamCompleted := True\<rparr> else st)
           in if \<not> cs_messageSaved st1 \<and> \<not> cs_clientDisconnected st1
                 \<and> trim (cs_assistantText st1) \<noteq> []
              then
                (case saveAssistantMessage now sid (cs_db st1) (cs_assistantText st1) of
                   (None, d') \<Rightarrow> st1\<lparr>cs_db := d', cs_messageSaved := True\<rparr>
                 | (Some e, d') \<Rightarrow>
                     (let st2 = st1\<lparr>cs_db := d'\<rparr>
                      in if \<not> cs_streamCompleted st2 \<and> \<not> cs_messageSaved st2
                         then savePartialMessage now sid st2 else st2))
              else if cs_clientDisconnected st1 \<and> \<not> cs_messageSaved st1
              then savePartialMessage now sid st1
              else st1))"

text \<open>
  The streaming part of the handler, from the event-stream headers on: the final state,
  after the events of the client that come while or after the handler saves.
\<close>

definition chatStreaming :: "int \<Rightarrow> int \<Rightarrow> db \<Rightarrow> read_step list \<Rightarrow> client_event list \<Rightarrow> chat_stream" where
  "chatStreaming now sid d reads lateEvents =
     foldl (onChatEvent now sid)
       (afterReads now sid
          (chatReads now sid
             \<lparr>cs_assistantText = [], cs_streamCompleted = False, cs_messageSaved = False,
              cs_clientDisconnected = False, cs_resOpen = True, cs_sent = [Connected None],
              cs_db = d\<rparr>
             reads))
       lateEvents"

subsection \<open>The handler\<close>

record chat_body =
  chat_sessionId :: "int option"
  chat_personaId :: "int option"
  chat_characterId :: "int option"
  chat_stream :: bool
  chat_userMessage :: field
  chat_retry :: bool

definition CONTINUE_MESSAGE :: string where
  "CONTINUE_MESSAGE =
     ''[SYSTEM NOTE: Ignore this message, and continue on from the previous response]''"

text \<open>
  The session of the request: the one it names, or a new one for the persona and the
  character it names.
\<close>

definition sessionToUse :: "int \<Rightarrow> db \<Rightarrow> chat_body \<Rightarrow> outcome + (int \<times> db)" where
  "sessionToUse now d b =
     (if \<not> falsyId (chat_sessionId b) then Inr (idOf (chat_sessionId b), d)
      else if falsyId (chat_personaId b) \<or> falsyId (chat_characterId b)
      then Inl (Respond 400 (JsonError ''Missing personaId or characterId''))
      else
        (case chatSession_create d now (idOf (chat_personaId b)) (idOf (chat_characterId b)) of
           Inl e \<Rightarrow> Inl (Uncaught e)
         | Inr (newSession, d1) \<Rightarrow> Inr (session_id newSession, d1)))"

text \<open>The user's message is stored unless it is the continue note or the request retries.\<close>

definition persistUserMessage :: "int \<Rightarrow> db \<Rightarrow> int \<Rightarrow> chat_body \<Rightarrow> prisma_error option \<times> db" where
  "persistUserMessage now d sid b =
     (if truthy (chat_userMessage b) \<and> orElse (chat_userMessage b) [] \<noteq> CONTINUE_MESSAGE
         \<and> \<not> chat_retry b
      then
        (case chatMessage_create d now sid ''user'' (orElse (chat_userMessage b) []) of
           Inl e \<Rightarrow> (Some e, d)
         | Inr (_, d1) \<Rightarrow>
             (case chatSession_touch d1 sid now of
                Inl e \<Rightarrow> (Some e, d1)
              | Inr d2 \<Rightarrow> (None, d2)))
      else (None, d))"

definition chat_POST :: "post_env \<Rightarrow> db \<Rightarrow> chat_body \<Rightarrow> outcome \<times> db" where
  "chat_POST env d b =
     (if \<not> hasApiKey d then (Respond 401 (JsonError ''API key not configured in settings''), d)
      else
        (case sessionToUse (env_now env) d b of
           Inl out \<Rightarrow> (out, d)
         | Inr (sid, d1) \<Rightarrow>
             (case persistUserMessage (env_now env) d1 sid b of
                (Some e, d2) \<Rightarrow> (Uncaught e, d2)
              | (None, d2) \<Rightarrow>
                  (case findUnique_session d2 sid of
                     None \<Rightarrow> (Respond 404 (JsonError ''Session not found''), d2)
                   | Some session \<Rightarrow>
                       (let d3 = storeLastApiRequest d2 sid (env_payload env);
                            up = env_upstream env
                        in if up_fetchFails up then (Uncaught OtherError, d3)
                           else if \<not> chat_stream b then
                             (if (case up_content up of None \<Rightarrow> False | Some c \<Rightarrow> c \<noteq> []) then
                                (case saveAssistantMessage (env_now env) sid d3
                                        (case up_content up of None \<Rightarrow> [] | Some c \<Rightarrow> c) of
                                   (Some e, d4) \<Rightarrow> (Uncaught e, d4)
                                 | (None, d4) \<Rightarrow>
                                     (Respond (up_status up) (JsonUpstream (up_content up)), d4))
                              else (Respond (up_status up) (JsonUpstream (up_content up)), d3))
                           else if \<not> up_reader up then (Streamed [Connected None] True, d3)
                           else
                             (let st = chatStreaming (env_now env) sid d3 (up_reads up)
                                         (env_lateEvents env)
                              in (Streamed (cs_sent st) (chatCanWrite st), cs_db st)))))))"

subsection \<open>What the streaming part maintains\<close>





section \<open>Example data\<close>

definition ann :: Persona where
  "ann = \<lparr>persona_id = 1, persona_name = ''Ann'', persona_profileName = None,
          persona_profile = ''A traveller''\<rparr>"

definition bob :: Character where
  "bob = \<lparr>character_id = 1, character_name = ''Bob'', character_profileName = Some ''Innkeeper'',
          character_bio = None, character_scenario = ''An inn'', character_personality = ''Gruff'',
          character_firstMessage = ''Hello {{user}}, I am {{char}}.'',
          character_exampleDialogue = []\<rparr>"

definition variantA :: MessageVersion where
  "variantA = \<lparr>version_id = 10, version_messageId = 2, version_content = ''Welcome back.'',
               version_version = 1, version_isActive = False\<rparr>"

definition variantB :: MessageVersion where
  "variantB = \<lparr>version_id = 11, version_messageId = 2, version_content = ''Sit down.'',
               version_version = 2, version_isActive = False\<rparr>"

definition hello :: ChatMessage where
  "hello = \<lparr>message_id = 2, message_sessionId = 1, message_role = ''assistant'',
            message_content = ''Hello.'', message_createdAt = 101\<rparr>"

definition example_db :: db where
  "example_db =
     \<lparr>personas = [ann], characters = [bob],
      characterGroups = [\<lparr>group_id = 1, group_name = ''Regulars'', group_color = ''#6366f1'',
                          group_isCollapsed = False, group_sortOrder = 1\<rparr>],
      chatSessions = [\<lparr>session_id = 1, session_personaId = 1, session_characterId = 1,
                       session_summary = None, session_updatedAt = 100,
                       session_lastApiRequest = None\<rparr>],
      chatMessages =
        [\<lparr>message_id = 1, message_sessionId = 1, message_role = ''user'',
          message_content = ''Ann: hi'', message_createdAt = 100\<rparr>,
         hello],
      messageVersions = [variantA, variantB],
      settings = [(''apiKey'', ''sk-test'')],
      nextPersonaId = 2, nextCharacterId = 2, nextGroupId = 2, nextSessionId = 2, nextMessageId = 3, nextVersionId = 12\<rparr>"

definition example_page :: page_state where
  "example_page =
     \<lparr>routeId = Some ''1'',
      messages = [\<lparr>cm_messageId = Some 1, cm_content = ''Ann: hi''\<rparr>,
                  \<lparr>cm_messageId = Some 2, cm_content = ''Hello.''\<rparr>],
      messageVariants = [2 \<mapsto> [variantA, variantB]],
      currentVariantIndex = [2 \<mapsto> 2],
      variantDisplayContent = [2 \<mapsto> ''Sit down.''],
      localStorage = Map.empty\<rparr>"

definition blank_db :: db where
  "blank_db = example_db\<lparr>characters := [bob\<lparr>character_profileName := Some []\<rparr>]\<rparr>"

definition bob_again :: character_body where
  "bob_again = \<lparr>cb_name = Str ''Bob'', cb_profileName = Str [], cb_bio = Undefined,
                cb_scenario = Undefined, cb_personality = Undefined, cb_firstMessage = Undefined,
                cb_exampleDialogue = Undefined\<rparr>"

definition innkeeper_again :: character_body where
  "innkeeper_again = \<lparr>cb_name = Str ''Bob'', cb_profileName = Str ''Innkeeper'', cb_bio = Undefined,
                cb_scenario = Undefined, cb_personality = Undefined, cb_firstMessage = Undefined,
                cb_exampleDialogue = Undefined\<rparr>"

definition plain_db :: db where
  "plain_db = example_db\<lparr>characters := [bob\<lparr>character_profileName := None\<rparr>]\<rparr>"

definition bob_plain :: character_body where
  "bob_plain = \<lparr>cb_name = Str ''Bob'', cb_profileName = Undefined, cb_bio = Undefined,
                cb_scenario = Undefined, cb_personality = Undefined, cb_firstMessage = Undefined,
                cb_exampleDialogue = Undefined\<rparr>"

definition cash_db :: db where
  "cash_db = example_db\<lparr>personas := [ann\<lparr>persona_name := ''Ca$$h''\<rparr>]\<rparr>"

definition new_session :: session_body where
  "new_session = \<lparr>sb_personaId = Some 1, sb_characterId = Some 1\<rparr>"

definition quiet_upstream :: upstream where
  "quiet_upstream = \<lparr>up_fetchFails = False, up_ok = True, up_status = 200, up_content = Some ''Take a seat.'',
      up_reader = True,
      up_reads = [([], ReadChunk [DeltaLine ''Take a '']), ([], ReadChunk [DeltaLine ''seat.'', DoneLine]),
                  ([], ReadDone)]\<rparr>"

definition aborted_upstream :: upstream where
  "aborted_upstream = quiet_upstream\<lparr>up_reads :=
      [([], ReadChunk [DeltaLine ''Take a '']), ([ReqAborted, ReqClose], ReadChunk [DeltaLine ''seat.'', DoneLine]),
       ([], ReadDone)]\<rparr>"

definition quiet_env :: post_env where
  "quiet_env = \<lparr>env_now = 500, env_others = [], env_payload = ''{}'',
                 env_upstream = quiet_upstream, env_lateEvents = []\<rparr>"

definition aborted_env :: post_env where
  "aborted_env = quiet_env\<lparr>env_upstream := aborted_upstream\<rparr>"


definition late_env :: post_env where
  "late_env = quiet_env\<lparr>env_others := [[], [], [(2, 3, ''x'')]]\<rparr>"

definition ann_again :: persona_body where
  "ann_again = \<lparr>pb_name = Str ''Ann'', pb_profileName = Str ''Traveller'',
                 pb_profile = Str ''Another Ann''\<rparr>"

definition regulars_again :: group_body where
  "regulars_again = \<lparr>gb_name = Str '' Regulars '', gb_color = None, gb_isCollapsed = None\<rparr>"

definition crowded_db :: db where
  "crowded_db =
     example_db\<lparr>personas := [ann\<lparr>persona_profileName := Some ''Traveller''\<rparr>,
                              ann\<lparr>persona_id := 2, persona_name := ''Zed''\<rparr>],
                 characters := [bob, bob\<lparr>character_id := 2, character_name := ''Rob''\<rparr>],
                 characterGroups := characterGroups example_db @
                    [\<lparr>group_id = 2, group_name = ''Guests'', group_color = ''#000000'',
                      group_isCollapsed = False, group_sortOrder = 2\<rparr>]\<rparr>"

definition first_session :: ChatSession where
  "first_session = \<lparr>session_id = 1, session_personaId = 1, session_characterId = 1,
                     session_summary = None, session_updatedAt = 100,
                     session_lastApiRequest = None\<rparr>"




section \<open>Properties\<close>

subsection \<open>Lookups\<close>

lemma find_SomeD: "find P xs = Some x \<Longrightarrow> P x \<and> x \<in> set xs"
  by (induction xs) (auto split: if_splits)

lemma find_map_upd:
  "find (\<lambda>m. key m = k) xs = Some x \<Longrightarrow> (\<And>m. key (f m) = key m) \<Longrightarrow>
   find (\<lambda>m. key m = k) (map (\<lambda>m. if key m = k then f m else m) xs) = Some (f x)"
  by (induction xs) (auto split: if_splits)

lemma find_deactivate:
  "find (\<lambda>v. version_id v = vid)
     (map (\<lambda>v. if version_messageId v = mid then v\<lparr>version_isActive := False\<rparr> else v) xs)
   = map_option (\<lambda>v. if version_messageId v = mid then v\<lparr>version_isActive := False\<rparr> else v)
       (find (\<lambda>v. version_id v = vid) xs)"
  by (induction xs) auto

lemma touchSessionOf_ok:
  "\<exists>d'. touchSessionOf d mid now = Inr d' \<and> messageVersions d' = messageVersions d
        \<and> chatMessages d' = chatMessages d"
  by (auto simp: touchSessionOf_def chatSession_touch_def findUnique_session_def find_None_iff
      split: option.splits dest!: find_SomeD)



subsection \<open>Variant navigation\<close>

lemma pointer_display [simp]:
  "pointer (st\<lparr>variantDisplayContent := x\<rparr>) k = pointer st k"
  by (simp add: pointer_def)

lemma pointer_saveVariantSelection [simp]:
  "pointer (saveVariantSelection st m i) k = pointer st k"
  by (simp add: pointer_def saveVariantSelection_def split: option.splits)

lemma pointer_set [simp]:
  "pointer (st\<lparr>currentVariantIndex := (currentVariantIndex st)(m \<mapsto> i)\<rparr>) m = i"
  by (simp add: pointer_def)

lemma pointer_if:
  "pointer (if c then a else b) k = (if c then pointer a k else pointer b k)"
  by simp

lemma pointer_case_display [simp]:
  "pointer (case x of None \<Rightarrow> a | Some y \<Rightarrow> a\<lparr>variantDisplayContent := f y\<rparr>) k = pointer a k"
  by (cases x) simp_all

lemma navigateVariant_pointer:
  assumes "messageVariants st messageId = Some vs" and "vs \<noteq> []"
  shows "pointer (navigateVariant st messageId dir) messageId =
           max 0 (min (case dir of
                         Prev \<Rightarrow> (if pointer st messageId > 0 then pointer st messageId - 1
                                  else int (length vs) + 1 - 1)
                       | Next \<Rightarrow> (if pointer st messageId < int (length vs) + 1 - 1
                                  then pointer st messageId + 1 else 0))
                  (int (length vs) + 1 - 1))"
proof -
  have n: "\<not> int (length vs) + 1 \<le> 1" using assms(2) by simp
  show ?thesis
    unfolding navigateVariant_def Let_def pointer_def [symmetric]
    by (simp only: assms(1) option.case n if_False pointer_if pointer_case_display
        pointer_saveVariantSelection pointer_set if_cancel)
qed

text \<open>
  C3: for a message with N \<ge> 1 variants and a pointer in [0, N], \<open>next\<close> moves the
  pointer from N to 0 and otherwise up by one, \<open>prev\<close> moves it from 0 to N and
  otherwise down by one.
\<close>

theorem navigateVariant_cycles:
  assumes "messageVariants st messageId = Some vs" and "1 \<le> length vs"
    and "0 \<le> pointer st messageId" and "pointer st messageId \<le> int (length vs)"
  shows "pointer (navigateVariant st messageId Next) messageId =
           (if pointer st messageId = int (length vs) then 0 else pointer st messageId + 1)
       \<and> pointer (navigateVariant st messageId Prev) messageId =
           (if pointer st messageId = 0 then int (length vs) else pointer st messageId - 1)"
proof -
  have ne: "vs \<noteq> []" using assms(2) by auto
  have nx: "pointer (navigateVariant st messageId Next) messageId =
           (if pointer st messageId = int (length vs) then 0 else pointer st messageId + 1)"
    using assms(3,4) by (simp add: navigateVariant_pointer [OF assms(1) ne])
  have pv: "pointer (navigateVariant st messageId Prev) messageId =
           (if pointer st messageId = 0 then int (length vs) else pointer st messageId - 1)"
    using assms(3,4) by (simp add: navigateVariant_pointer [OF assms(1) ne])
  show ?thesis using nx pv by (rule conjI)
qed

theorem navigateVariant_cycles_witness:
  "messageVariants example_page 2 = Some [variantA, variantB]
   \<and> 1 \<le> length [variantA, variantB]
   \<and> 0 \<le> pointer example_page 2
   \<and> pointer example_page 2 \<le> int (length [variantA, variantB])
   \<and> pointer (navigateVariant example_page 2 Next) 2 =
           (if pointer example_page 2 = int (length [variantA, variantB]) then 0 else pointer example_page 2 + 1)
   \<and> pointer (navigateVariant example_page 2 Prev) 2 =
           (if pointer example_page 2 = 0 then int (length [variantA, variantB]) else pointer example_page 2 - 1)"
proof -
  have v: "messageVariants example_page 2 = Some [variantA, variantB]"
    by (simp add: example_page_def)
  have l: "1 \<le> length [variantA, variantB]" by simp
  have p: "pointer example_page 2 = 2" by (simp add: pointer_def example_page_def)
  have p0: "0 \<le> pointer example_page 2" by (simp add: p)
  have p1: "pointer example_page 2 \<le> int (length [variantA, variantB])" by (simp add: p)
  show ?thesis
    by (rule conjI [OF v conjI [OF l conjI [OF p0 conjI [OF p1 navigateVariant_cycles [OF v l p0 p1]]]]])
qed

subsection \<open>Commit and cleanup\<close>

lemma messageVersion_update_messageIds:
  "messageVersion_update d vid f = Inr (v, d') \<Longrightarrow> (\<And>w. version_messageId (f w) = version_messageId w) \<Longrightarrow>
   map version_messageId (messageVersions d') = map version_messageId (messageVersions d)"
  by (auto simp: messageVersion_update_def split: option.splits)

lemma chatMessage_setContent_versions:
  "chatMessage_setContent d mid c = Inr d' \<Longrightarrow> messageVersions d' = messageVersions d"
  by (auto simp: chatMessage_setContent_def split: option.splits)

lemma variants_PUT_messageIds:
  "map version_messageId (messageVersions (snd (variants_PUT now d mid b)))
     = map version_messageId (messageVersions d)"
proof -
  have da: "map version_messageId (messageVersions (messageVersion_deactivateAll d mid))
              = map version_messageId (messageVersions d)"
    by (simp add: messageVersion_deactivateAll_def comp_def)
  show ?thesis
    using touchSessionOf_ok
    apply (simp add: variants_PUT_def Let_def split: option.splits sum.splits prod.splits)
    apply (intro conjI allI impI)
    apply (auto simp: da dest!: messageVersion_update_messageIds chatMessage_setContent_versions)
    apply (metis Inr_inject)+
    done
qed

lemma length_filter_key_cong:
  "map f xs = map f ys \<Longrightarrow>
   length (filter (\<lambda>v. f v = k) xs) = length (filter (\<lambda>v. f v = k) ys)"
proof (induction xs arbitrary: ys)
  case Nil
  then show ?case by simp
next
  case (Cons x xs)
  then obtain y ys' where "ys = y # ys'" by (cases ys) auto
  with Cons show ?case by auto
qed

lemma variantsOf_cong:
  "map version_messageId (messageVersions d1) = map version_messageId (messageVersions d) \<Longrightarrow>
   length (variantsOf d1 mid) = length (variantsOf d mid)"
  unfolding variantsOf_def by (rule length_filter_key_cong)

lemma variants_DELETE_result:
  "\<exists>d2. variants_DELETE now d1 mid = (Respond 200 (JsonDeleted (length (variantsOf d1 mid))), d2)
     \<and> messageVersions d2 = filter (\<lambda>v. version_messageId v \<noteq> mid) (messageVersions d1)"
proof -
  let ?d = "d1\<lparr>messageVersions := filter (\<lambda>v. version_messageId v \<noteq> mid) (messageVersions d1)\<rparr>"
  obtain d2 where "touchSessionOf ?d mid now = Inr d2" "messageVersions d2 = messageVersions ?d"
    using touchSessionOf_ok by blast
  then show ?thesis
    by (simp add: variants_DELETE_def messageVersion_deleteMany_def variantsOf_def)
qed

text \<open>
  C2, as stated, fails: committing variant 10 of message 2 copies its content into the
  message and answers 200, and both variants of the message are still stored.
\<close>

theorem commit_keeps_variants_counterexample:
  "variants_PUT 200 example_db 2 \<lparr>put_variantId = Some 10, put_content = None\<rparr>
     = (Respond 200 (JsonVersion (variantA\<lparr>version_isActive := True\<rparr>)),
        example_db\<lparr>chatSessions := [\<lparr>session_id = 1, session_personaId = 1, session_characterId = 1,
                       session_summary = None, session_updatedAt = 200,
                       session_lastApiRequest = None\<rparr>],
          chatMessages :=
        [\<lparr>message_id = 1, message_sessionId = 1, message_role = ''user'',
          message_content = ''Ann: hi'', message_createdAt = 100\<rparr>,
         hello\<lparr>message_content := ''Welcome back.''\<rparr>],
          messageVersions := [variantA\<lparr>version_isActive := True\<rparr>, variantB]\<rparr>)"
  by code_simp

text \<open>
  C2, amended: committing an existing variant of an existing message answers 200 with the
  variant, copies the variant's content into the message, leaves that variant the only
  active one of the message, and deletes no variant.
\<close>

theorem commit_copies_content:
  assumes "findUnique_message d messageId = Some m"
    and "findUnique_version d variantId = Some v" and "variantId \<noteq> 0"
  shows "\<exists>v' d'. variants_PUT now d messageId \<lparr>put_variantId = Some variantId, put_content = None\<rparr>
            = (Respond 200 (JsonVersion v'), d')
         \<and> version_content v' = version_content v
         \<and> chatMessages d' =
             map (\<lambda>m. if message_id m = messageId then m\<lparr>message_content := version_content v\<rparr> else m)
               (chatMessages d)
         \<and> findUnique_message d' messageId = Some (m\<lparr>message_content := version_content v\<rparr>)
         \<and> messageVersions d' =
             map (\<lambda>w. if version_id w = variantId then w\<lparr>version_isActive := True\<rparr>
                       else if version_messageId w = messageId then w\<lparr>version_isActive := False\<rparr>
                       else w) (messageVersions d)
         \<and> length (messageVersions d') = length (messageVersions d)"
proof -
  let ?d1 = "messageVersion_deactivateAll d messageId"
  let ?g = "\<lambda>v. if version_messageId v = messageId then v\<lparr>version_isActive := False\<rparr> else v"
  let ?c = "version_content v"
  have f1: "findUnique_version ?d1 variantId = Some (?g v)"
    using assms(2)
    by (simp add: findUnique_version_def messageVersion_deactivateAll_def find_deactivate)
  obtain d2 where u: "messageVersion_update ?d1 variantId (\<lambda>v. v\<lparr>version_isActive := True\<rparr>)
                        = Inr ((?g v)\<lparr>version_isActive := True\<rparr>, d2)"
    and d2: "d2 = ?d1\<lparr>messageVersions :=
                       map (\<lambda>w. if version_id w = variantId then w\<lparr>version_isActive := True\<rparr> else w)
                         (messageVersions ?d1)\<rparr>"
    using f1 by (simp add: messageVersion_update_def)
  have m2: "findUnique_message d2 messageId = Some m"
    using assms(1) by (simp add: d2 findUnique_message_def messageVersion_deactivateAll_def)
  obtain d3 where s: "chatMessage_setContent d2 messageId ?c = Inr d3"
    and d3: "d3 = d2\<lparr>chatMessages :=
                      map (\<lambda>m. if message_id m = messageId then m\<lparr>message_content := ?c\<rparr> else m)
                        (chatMessages d2)\<rparr>"
    using m2 by (simp add: chatMessage_setContent_def)
  obtain d4 where t: "touchSessionOf d3 messageId now = Inr d4"
    and d4: "messageVersions d4 = messageVersions d3" "chatMessages d4 = chatMessages d3"
    using touchSessionOf_ok by blast
  have ms: "chatMessages d4 =
              map (\<lambda>m. if message_id m = messageId then m\<lparr>message_content := ?c\<rparr> else m)
                (chatMessages d)"
    by (simp add: d4 d3 d2 messageVersion_deactivateAll_def)
  have m4: "findUnique_message d4 messageId = Some (m\<lparr>message_content := ?c\<rparr>)"
    using assms(1)
      find_map_upd[of message_id messageId "chatMessages d" m "\<lambda>m. m\<lparr>message_content := ?c\<rparr>"]
    by (simp add: findUnique_message_def ms)
  have r: "variants_PUT now d messageId \<lparr>put_variantId = Some variantId, put_content = None\<rparr>
            = (Respond 200 (JsonVersion ((?g v)\<lparr>version_isActive := True\<rparr>)), d4)"
    using assms(3) u s t by (simp add: variants_PUT_def Let_def)
  have vs: "messageVersions d4 =
             map (\<lambda>w. if version_id w = variantId then w\<lparr>version_isActive := True\<rparr>
                       else if version_messageId w = messageId then w\<lparr>version_isActive := False\<rparr>
                       else w) (messageVersions d)"
    by (simp add: d4 d3 d2 messageVersion_deactivateAll_def comp_def)
  show ?thesis using r m4 ms vs by simp
qed

theorem commit_copies_content_witness:
  "findUnique_message example_db 2 = Some hello
   \<and> findUnique_version example_db 10 = Some variantA
   \<and> (10::int) \<noteq> 0
   \<and> (\<exists>v' d'. variants_PUT 200 example_db 2 \<lparr>put_variantId = Some 10, put_content = None\<rparr>
            = (Respond 200 (JsonVersion v'), d')
         \<and> version_content v' = version_content variantA
         \<and> chatMessages d' =
             map (\<lambda>m. if message_id m = 2 then m\<lparr>message_content := version_content variantA\<rparr> else m)
               (chatMessages example_db)
         \<and> findUnique_message d' 2 = Some (hello\<lparr>message_content := version_content variantA\<rparr>)
         \<and> messageVersions d' =
             map (\<lambda>w. if version_id w = 10 then w\<lparr>version_isActive := True\<rparr>
                       else if version_messageId w = 2 then w\<lparr>version_isActive := False\<rparr>
                       else w) (messageVersions example_db)
         \<and> length (messageVersions d') = length (messageVersions example_db))"
proof -
  have m: "findUnique_message example_db 2 = Some hello" by code_simp
  have v: "findUnique_version example_db 10 = Some variantA" by code_simp
  have n: "(10::int) \<noteq> 0" by simp
  show ?thesis
    by (rule conjI [OF m conjI [OF v conjI [OF n commit_copies_content [OF m v n, of 200]]]])
qed

text \<open>
  C7: after a commit, the cleanup leaves no variant of the message and answers 200 with
  the number of rows it removed, which is the number of variants the message had.
\<close>

theorem commit_then_cleanup:
  "(case variants_PUT now d messageId \<lparr>put_variantId = Some variantId, put_content = None\<rparr> of
      (committed, d1) \<Rightarrow>
        (case variants_DELETE now' d1 messageId of
           (cleaned, d2) \<Rightarrow>
             variantsOf d2 messageId = []
             \<and> cleaned = Respond 200 (JsonDeleted (length (variantsOf d1 messageId)))
             \<and> length (variantsOf d1 messageId) = length (variantsOf d messageId)
             \<and> length (messageVersions d2) + length (variantsOf d1 messageId)
                 = length (messageVersions d1)))"
proof -
  obtain committed d1 where p: "variants_PUT now d messageId \<lparr>put_variantId = Some variantId, put_content = None\<rparr> = (committed, d1)"
    by (cases "variants_PUT now d messageId \<lparr>put_variantId = Some variantId, put_content = None\<rparr>")
  obtain d2 where q: "variants_DELETE now' d1 messageId = (Respond 200 (JsonDeleted (length (variantsOf d1 messageId))), d2)"
    and v2: "messageVersions d2 = filter (\<lambda>v. version_messageId v \<noteq> messageId) (messageVersions d1)"
    using variants_DELETE_result by blast
  have e: "variantsOf d2 messageId = []" by (simp add: variantsOf_def v2)
  have k: "length (variantsOf d1 messageId) = length (variantsOf d messageId)"
    using variants_PUT_messageIds [of now d messageId] p variantsOf_cong by (metis snd_conv)
  have s: "length (messageVersions d2) + length (variantsOf d1 messageId) = length (messageVersions d1)"
    using sum_length_filter_compl [of "\<lambda>v. version_messageId v = messageId" "messageVersions d1"]
    by (simp add: v2 variantsOf_def)
  show ?thesis using p q e k s by simp
qed

subsection \<open>Deleting a persona\<close>

text \<open>
  C6: deleting an existing persona answers 204 and removes the persona, the sessions
  that reference it and the messages of those sessions. The delete of the messages goes
  through when the schema cascades to their variants or no variant references them.
\<close>

theorem personas_DELETE_cascades:
  assumes "findUnique_persona d personaId = Some p"
    and "rule = Cascade \<or> \<not> referencedByVariant d (sessionOfPersona d personaId)"
  shows "\<exists>d'. personas_DELETE rule d personaId = (Respond 204 NoBody, d')
          \<and> personas d' = filter (\<lambda>p. persona_id p \<noteq> personaId) (personas d)
          \<and> chatSessions d' = filter (\<lambda>s. session_personaId s \<noteq> personaId) (chatSessions d)
          \<and> chatMessages d' = filter (\<lambda>m. \<not> sessionOfPersona d personaId m) (chatMessages d)
          \<and> findUnique_persona d' personaId = None"
proof -
  have r: "\<not> (rule = Restrict \<and> referencedByVariant d (sessionOfPersona d personaId))"
    using assms(2) by auto
  have n: "find (\<lambda>p. persona_id p = personaId) (filter (\<lambda>p. persona_id p \<noteq> personaId) (personas d)) = None"
    by (simp add: find_None_iff)
  show ?thesis
    using assms(1) r n
    by (simp add: personas_DELETE_def chatMessage_deleteMany_def chatSession_deleteMany_def
        persona_delete_def findUnique_persona_def Let_def)
qed

theorem personas_DELETE_cascades_witness:
  "findUnique_persona example_db 1 = Some ann
   \<and> (Cascade = Cascade \<or> \<not> referencedByVariant example_db (sessionOfPersona example_db 1))
   \<and> (\<exists>d'. personas_DELETE Cascade example_db 1 = (Respond 204 NoBody, d')
          \<and> personas d' = filter (\<lambda>p. persona_id p \<noteq> 1) (personas example_db)
          \<and> chatSessions d' = filter (\<lambda>s. session_personaId s \<noteq> 1) (chatSessions example_db)
          \<and> chatMessages d' = filter (\<lambda>m. \<not> sessionOfPersona example_db 1 m) (chatMessages example_db)
          \<and> findUnique_persona d' 1 = None)"
proof -
  have p: "findUnique_persona example_db 1 = Some ann" by code_simp
  have r: "Cascade = Cascade \<or> \<not> referencedByVariant example_db (sessionOfPersona example_db 1)"
    by simp
  show ?thesis
    by (rule conjI [OF p conjI [OF r personas_DELETE_cascades [OF p r]]])
qed

subsection \<open>Creating a character\<close>

text \<open>
  Which duplicates POST /api/characters refuses: a request whose name and non-empty
  profileName are those of a stored character is answered 400 and stores nothing,
  whatever the index does with NULL.
\<close>

lemma characters_POST_rejects_pair:
  assumes "cb_name b = Str n" and "n \<noteq> []" and "cb_profileName b = Str p" and "p \<noteq> []"
    and "c \<in> set (characters d)" and "character_name c = n" and "character_profileName c = Some p"
  shows "characters_POST nulls d b =
           (Respond 400
              (JsonError ''A character with this name and profile name combination already exists''), d)"
proof -
  have "(n, Some p) \<in> set (map characterKey (characters d))"
    using assms(5-7) by (force simp: characterKey_def)
  then have "uniqueViolation nulls (map characterKey (characters d)) (n, Some p)"
    by (simp add: uniqueViolation_def)
  then show ?thesis
    using assms(1-4)
    by (simp add: characters_POST_def character_create_def characterKey_def characterData_def
        Let_def truthy_def orElse_def whenTruthy_def)
qed

text \<open>
  C5 fails on the code in two ways. Under an index that holds NULLs distinct (the index
  of a PostgreSQL database, which the README names), a request that repeats the name of
  a stored character and, like it, has no profileName is answered 201 and stored: the
  table then holds the pair (Bob, none) twice. The import dialogue of the characters
  page refuses this very combination before it sends the request
  (\<open>(c.profileName || '') === (importProfileName.trim() || '')\<close>), the handler does not.
  And under either rule, a request that repeats the name and the empty profileName of a
  stored character (PUT /api/characters/[id] stores an empty profileName as it is) is
  answered 201 and stored, because the create leaves a falsy profileName out.
\<close>

theorem characters_POST_stores_duplicates:
  "map characterKey (characters plain_db) = [(''Bob'', None)]
   \<and> cb_name bob_plain = Str ''Bob'' \<and> cb_profileName bob_plain = Undefined
   \<and> fst (characters_POST NullsDistinct plain_db bob_plain)
       = Respond 201 (JsonCharacter
           \<lparr>character_id = 2, character_name = ''Bob'', character_profileName = None,
            character_bio = None, character_scenario = [], character_personality = [],
            character_firstMessage = noFirstMessage, character_exampleDialogue = []\<rparr>)
   \<and> map characterKey (characters (snd (characters_POST NullsDistinct plain_db bob_plain)))
       = [(''Bob'', None), (''Bob'', None)]
   \<and> map characterKey (characters blank_db) = [(''Bob'', Some [])]
   \<and> cb_name bob_again = Str ''Bob'' \<and> cb_profileName bob_again = Str []
   \<and> fst (characters_POST NullsDistinct blank_db bob_again)
       = Respond 201 (JsonCharacter
           \<lparr>character_id = 2, character_name = ''Bob'', character_profileName = None,
            character_bio = None, character_scenario = [], character_personality = [],
            character_firstMessage = noFirstMessage, character_exampleDialogue = []\<rparr>)
   \<and> map characterKey (characters (snd (characters_POST NullsDistinct blank_db bob_again)))
       = [(''Bob'', Some []), (''Bob'', None)]
   \<and> characters_POST NullsNotDistinct blank_db bob_again
       = characters_POST NullsDistinct blank_db bob_again"
  by code_simp

subsection \<open>Creating a session\<close>

lemma getSubstitution_plain:
  "CHR ''$'' \<notin> set rep \<Longrightarrow> getSubstitution matched passed rest rep = rep"
  by (induction matched passed rest rep rule: getSubstitution.induct) auto

lemma replaceFrom_plain:
  "CHR ''$'' \<notin> set rep \<Longrightarrow> replaceFrom pat rep passed s = substituteAll pat rep s"
  by (induction pat rep passed s rule: replaceFrom.induct) (auto simp: getSubstitution_plain)

lemma seedContent_plain:
  assumes "CHR ''$'' \<notin> set (persona_name persona)" and "CHR ''$'' \<notin> set (character_name character)"
  shows "seedContent persona character =
           substituteAll ''{{char}}'' (character_name character)
             (substituteAll ''{{user}}'' (persona_name persona) (character_firstMessage character))"
  using assms by (simp add: seedContent_def replaceAllMatches_def replaceFrom_plain)

lemma find_append_new:
  "find P xs = None \<Longrightarrow> P x \<Longrightarrow> find P (xs @ [x]) = Some x"
  by (induction xs) (auto split: if_splits)

lemma find_append_old:
  "find P xs = Some y \<Longrightarrow> find P (xs @ zs) = Some y"
  by (induction xs) (auto split: if_splits)

lemma find_append_some:
  "P x \<Longrightarrow> find P (xs @ [x]) \<noteq> None"
  by (induction xs) auto

text \<open>
  For a persona and a character whose names contain no dollar sign, a new session is
  seeded with exactly one message, of the assistant, whose content is the first message
  with the two placeholders replaced by the names.
\<close>

theorem sessions_POST_seeds:
  assumes "sb_personaId b = Some personaId" and "personaId \<noteq> 0"
    and "sb_characterId b = Some characterId" and "characterId \<noteq> 0"
    and "findUnique_persona d personaId = Some persona"
    and "findUnique_character d characterId = Some character"
    and "\<forall>m \<in> set (chatMessages d). message_sessionId m \<noteq> nextSessionId d"
    and "CHR ''$'' \<notin> set (persona_name persona)"
    and "CHR ''$'' \<notin> set (character_name character)"
  shows "\<exists>session d'. sessions_POST now d b = (Respond 201 (JsonSession session), d')
           \<and> session_id session = nextSessionId d
           \<and> session_personaId session = personaId \<and> session_characterId session = characterId
           \<and> filter (\<lambda>m. message_sessionId m = session_id session) (chatMessages d')
               = [\<lparr>message_id = nextMessageId d, message_sessionId = nextSessionId d,
                   message_role = ''assistant'',
                   message_content =
                     substituteAll ''{{char}}'' (character_name character)
                       (substituteAll ''{{user}}'' (persona_name persona)
                          (character_firstMessage character)),
                   message_createdAt = now\<rparr>]"
proof -
  let ?row = "\<lparr>session_id = nextSessionId d, session_personaId = personaId,
                 session_characterId = characterId, session_summary = None,
                 session_updatedAt = now, session_lastApiRequest = None\<rparr>"
  let ?d1 = "d\<lparr>chatSessions := chatSessions d @ [?row], nextSessionId := nextSessionId d + 1\<rparr>"
  have c: "chatSession_create d now personaId characterId = Inr (?row, ?d1)"
    using assms(5,6) by (simp add: chatSession_create_def Let_def)
  have p1: "findUnique_persona ?d1 personaId = Some persona"
    using assms(5) by (simp add: findUnique_persona_def)
  have c1: "findUnique_character ?d1 characterId = Some character"
    using assms(6) by (simp add: findUnique_character_def)
  have s1: "findUnique_session ?d1 (nextSessionId d) \<noteq> None"
    by (simp add: findUnique_session_def find_append_some)
  let ?msg = "\<lparr>message_id = nextMessageId d, message_sessionId = nextSessionId d,
                 message_role = ''assistant'', message_content = seedContent persona character,
                 message_createdAt = now\<rparr>"
  let ?d2 = "?d1\<lparr>chatMessages := chatMessages d @ [?msg], nextMessageId := nextMessageId d + 1\<rparr>"
  have m: "chatMessage_create ?d1 now (nextSessionId d) ''assistant'' (seedContent persona character)
             = Inr (?msg, ?d2)"
    using s1 by (simp add: chatMessage_create_def Let_def)
  have r: "sessions_POST now d b = (Respond 201 (JsonSession ?row), ?d2)"
    using assms(1-4) c p1 c1 m
    by (simp add: sessions_POST_def falsyId_def idOf_def)
  have f: "filter (\<lambda>m. message_sessionId m = nextSessionId d) (chatMessages d) = []"
    using assms(7) by (simp add: filter_empty_conv)
  show ?thesis
    using r f seedContent_plain [OF assms(8,9)] by simp
qed

text \<open>
  C10 at a persona named \<open>Ca$$h\<close>: the replacement text is expanded, \<open>$$\<close> becomes one
  dollar sign, and the seeded message greets \<open>Ca$h\<close>, which is not the persona's name.
\<close>

theorem sessions_POST_dollar_name:
  "map persona_name (personas cash_db) = [''Ca$$h'']
   \<and> map character_firstMessage (characters cash_db) = [''Hello {{user}}, I am {{char}}.'']
   \<and> fst (sessions_POST 300 cash_db new_session)
       = Respond 201 (JsonSession \<lparr>session_id = 2, session_personaId = 1,
                 session_characterId = 1, session_summary = None,
                 session_updatedAt = 300, session_lastApiRequest = None\<rparr>)
   \<and> map message_content
         (filter (\<lambda>m. message_sessionId m = 2) (chatMessages (snd (sessions_POST 300 cash_db new_session))))
       = [''Hello Ca$h, I am Bob.'']
   \<and> substituteAll ''{{char}}'' ''Bob''
         (substituteAll ''{{user}}'' ''Ca$$h'' ''Hello {{user}}, I am {{char}}.'')
       = ''Hello Ca$$h, I am Bob.''"
  by code_simp

subsection \<open>Generating a variant: what other requests do\<close>

lemma afterOthers_append: "afterOthers (bs @ cs) d = afterOthers cs (afterOthers bs d)"
  by (simp add: afterOthers_def)

lemma access_afterOthers:
  "access others d = (afterOthers (take (Suc 0) others) d, drop (Suc 0) others)"
  by (cases others) (simp_all add: access_def afterOthers_def)

lemma afterOthers_take_take:
  "afterOthers (take k (drop j bs)) (afterOthers (take j bs) d) = afterOthers (take (j + k) bs) d"
  by (simp add: take_add afterOthers_append)

lemma access_twice:
  "afterOthers (take (Suc 0) (drop (Suc 0) bs)) (afterOthers (take (Suc 0) bs) d)
     = afterOthers (take (Suc (Suc 0)) bs) d"
  using afterOthers_take_take [of "Suc 0" "Suc 0" bs d] by simp

lemma drop_twice: "drop (Suc 0) (drop (Suc 0) xs) = drop (Suc (Suc 0)) xs"
  by simp

lemma allocate_done: "\<not> retryCount a < maxRetries \<Longrightarrow> allocate messageId a = a"
  by (simp add: allocate.simps [of messageId a])

lemma allocate_step:
  assumes "retryCount a < maxRetries"
    and "d1 = afterOthers (take (Suc 0) (alloc_others a)) (alloc_db a)"
    and "lastVersion = findFirst_version_desc d1 messageId"
    and "candidate = (case lastVersion of None \<Rightarrow> 0 | Some v \<Rightarrow> version_version v) + 1"
    and "d2 = afterOthers (take (Suc (Suc 0)) (alloc_others a)) (alloc_db a)"
    and "others2 = drop (Suc (Suc 0)) (alloc_others a)"
  shows "allocate messageId a =
           (case findUnique_messageId_version d2 messageId candidate of
              None \<Rightarrow>
                a\<lparr>nextVersion := candidate,
                  attempts := attempts a @ [(map_option version_version lastVersion, candidate, False)],
                  alloc_db := d2, alloc_others := others2\<rparr>
            | Some existingVersion \<Rightarrow>
                allocate messageId
                  (a\<lparr>nextVersion := candidate,
                     retryCount := retryCount a + 1,
                     attempts := attempts a @ [(map_option version_version lastVersion, candidate, True)],
                     slept := slept a @
                       (if retryCount a + 1 < maxRetries then [50 + (retryCount a + 1) * 25] else []),
                     alloc_db := d2, alloc_others := others2\<rparr>))"
  unfolding assms(2,3,4,5,6)
  apply (subst allocate.simps [of messageId a])
  apply (simp only: assms(1) if_True access_afterOthers prod.case Let_def access_twice drop_twice)
  done

text \<open>Induction over the attempts of the loop.\<close>

lemma allocate_induct [case_names stop free taken]:
  assumes stop: "\<And>a. \<not> retryCount a < maxRetries \<Longrightarrow> P a a"
    and free: "\<And>a d1 lastVersion candidate d2 others2.
        retryCount a < maxRetries \<Longrightarrow>
        d1 = afterOthers (take (Suc 0) (alloc_others a)) (alloc_db a) \<Longrightarrow>
        lastVersion = findFirst_version_desc d1 messageId \<Longrightarrow>
        candidate = (case lastVersion of None \<Rightarrow> 0 | Some v \<Rightarrow> version_version v) + 1 \<Longrightarrow>
        d2 = afterOthers (take (Suc (Suc 0)) (alloc_others a)) (alloc_db a) \<Longrightarrow>
        others2 = drop (Suc (Suc 0)) (alloc_others a) \<Longrightarrow>
        findUnique_messageId_version d2 messageId candidate = None \<Longrightarrow>
        P a (a\<lparr>nextVersion := candidate,
                attempts := attempts a @ [(map_option version_version lastVersion, candidate, False)],
                alloc_db := d2, alloc_others := others2\<rparr>)"
    and taken: "\<And>a d1 lastVersion candidate d2 others2 existing a1.
        retryCount a < maxRetries \<Longrightarrow>
        d1 = afterOthers (take (Suc 0) (alloc_others a)) (alloc_db a) \<Longrightarrow>
        lastVersion = findFirst_version_desc d1 messageId \<Longrightarrow>
        candidate = (case lastVersion of None \<Rightarrow> 0 | Some v \<Rightarrow> version_version v) + 1 \<Longrightarrow>
        d2 = afterOthers (take (Suc (Suc 0)) (alloc_others a)) (alloc_db a) \<Longrightarrow>
        others2 = drop (Suc (Suc 0)) (alloc_others a) \<Longrightarrow>
        findUnique_messageId_version d2 messageId candidate = Some existing \<Longrightarrow>
        a1 = a\<lparr>nextVersion := candidate,
               retryCount := retryCount a + 1,
               attempts := attempts a @ [(map_option version_version lastVersion, candidate, True)],
               slept := slept a @
                 (if retryCount a + 1 < maxRetries then [50 + (retryCount a + 1) * 25] else []),
               alloc_db := d2, alloc_others := others2\<rparr> \<Longrightarrow>
        P a1 (allocate messageId a1) \<Longrightarrow>
        P a (allocate messageId a1)"
  shows "P a (allocate messageId a)"
proof (induction n \<equiv> "maxRetries - retryCount a" arbitrary: a)
  case 0
  then have "\<not> retryCount a < maxRetries" by simp
  then show ?case using stop allocate_done by metis
next
  case (Suc n)
  then have lt: "retryCount a < maxRetries" by simp
  define d1 where "d1 = afterOthers (take (Suc 0) (alloc_others a)) (alloc_db a)"
  define lastVersion where "lastVersion = findFirst_version_desc d1 messageId"
  define candidate where
    "candidate = (case lastVersion of None \<Rightarrow> 0 | Some v \<Rightarrow> version_version v) + 1"
  define d2 where "d2 = afterOthers (take (Suc (Suc 0)) (alloc_others a)) (alloc_db a)"
  define others2 where "others2 = drop (Suc (Suc 0)) (alloc_others a)"
  note step = allocate_step [OF lt d1_def lastVersion_def candidate_def d2_def others2_def]
  show ?case
  proof (cases "findUnique_messageId_version d2 messageId candidate")
    case None
    then show ?thesis
      using step free [OF lt d1_def lastVersion_def candidate_def d2_def others2_def None]
      by simp
  next
    case (Some existing)
    define a1 where "a1 = a\<lparr>nextVersion := candidate,
               retryCount := retryCount a + 1,
               attempts := attempts a @ [(map_option version_version lastVersion, candidate, True)],
               slept := slept a @
                 (if retryCount a + 1 < maxRetries then [50 + (retryCount a + 1) * 25] else []),
               alloc_db := d2, alloc_others := others2\<rparr>"
    have n: "n = maxRetries - retryCount a1" using Suc.hyps(2) by (simp add: a1_def)
    have eq: "allocate messageId a = allocate messageId a1"
      using step Some by (simp add: a1_def)
    show ?thesis
      unfolding eq
      by (rule taken [OF lt d1_def lastVersion_def candidate_def d2_def others2_def Some a1_def
            Suc.hyps(1) [OF n]])
  qed
qed

lemma allocate_db:
  "\<exists>k. alloc_db (allocate messageId a) = afterOthers (take k (alloc_others a)) (alloc_db a)
       \<and> alloc_others (allocate messageId a) = drop k (alloc_others a)"
proof (induction rule: allocate_induct [where messageId = messageId and a = a])
  case (stop a)
  have "alloc_db a = afterOthers (take 0 (alloc_others a)) (alloc_db a)
       \<and> alloc_others a = drop 0 (alloc_others a)"
    by (simp add: afterOthers_def)
  then show ?case by blast
next
  case (free a d1 lastVersion candidate d2 others2)
  then have "alloc_db (a\<lparr>nextVersion := candidate,
                attempts := attempts a @ [(map_option version_version lastVersion, candidate, False)],
                alloc_db := d2, alloc_others := others2\<rparr>)
               = afterOthers (take (Suc (Suc 0)) (alloc_others a)) (alloc_db a)
             \<and> alloc_others (a\<lparr>nextVersion := candidate,
                attempts := attempts a @ [(map_option version_version lastVersion, candidate, False)],
                alloc_db := d2, alloc_others := others2\<rparr>) = drop (Suc (Suc 0)) (alloc_others a)"
    by simp
  then show ?case by blast
next
  case (taken a d1 lastVersion candidate d2 others2 existing a1)
  from taken(9) obtain k where
    k: "alloc_db (allocate messageId a1) = afterOthers (take k (alloc_others a1)) (alloc_db a1)"
       "alloc_others (allocate messageId a1) = drop k (alloc_others a1)"
    by blast
  have "afterOthers (take k (alloc_others a1)) (alloc_db a1)
          = afterOthers (take (Suc (Suc 0) + k) (alloc_others a)) (alloc_db a)"
    using afterOthers_take_take [of k "Suc (Suc 0)" "alloc_others a" "alloc_db a"]
    by (simp add: taken(8) taken(5) taken(6))
  moreover have "drop k (alloc_others a1) = drop (Suc (Suc 0) + k) (alloc_others a)"
    by (simp add: taken(8) taken(6) add.commute)
  ultimately show ?case using k by metis
qed

subsection \<open>Generating a variant: a stream that is aborted\<close>

lemma onEvent_closes: "\<not> canWriteToResponse (onEvent st e)"
  by (cases e) (simp_all add: onEvent_def canWriteToResponse_def)

lemma onEvent_stays_closed:
  "\<not> canWriteToResponse st \<Longrightarrow> \<not> canWriteToResponse (foldl onEvent st es)"
proof (induction es arbitrary: st)
  case Nil
  then show ?case by simp
next
  case (Cons e es)
  show ?case using Cons.IH [OF onEvent_closes [of st e]] by simp
qed

lemma events_close:
  "es \<noteq> [] \<Longrightarrow> \<not> canWriteToResponse (foldl onEvent st es)"
proof (cases es)
  case Nil
  assume "es \<noteq> []"
  with Nil show ?thesis by simp
next
  case (Cons e es')
  show ?thesis using onEvent_stays_closed [OF onEvent_closes [of st e], of es'] Cons by simp
qed

lemma gone_iff [simp]:
  "(vs_clientDisconnected st \<or> \<not> canWriteToResponse st) = (\<not> canWriteToResponse st)"
  by (auto simp: canWriteToResponse_def)

lemma variantReads_aborted:
  "abortedBeforeEnd reads \<Longrightarrow> \<not> canWriteToResponse (variantReads st reads)"
proof (induction reads arbitrary: st)
  case Nil
  then show ?case by simp
next
  case (Cons step reads)
  obtain events result where step: "step = (events, result)" by (cases step)
  let ?st1 = "foldl onEvent st events"
  show ?case
  proof (cases "events = []")
    case False
    then have closed: "\<not> canWriteToResponse ?st1" by (rule events_close)
    then have "\<not> canWriteToResponse (?st1\<lparr>vs_streamCompletedNaturally := False\<rparr>)"
      by (simp add: canWriteToResponse_def)
    with closed show ?thesis
      by (cases result) (simp_all add: step Let_def)
  next
    case True
    with Cons.prems step obtain lines where r: "result = ReadChunk lines"
      and rest: "abortedBeforeEnd reads"
      by (cases result) auto
    show ?thesis
      using Cons.IH [OF rest] True r step
      by (simp add: Let_def)
  qed
qed

lemma say_closed: "\<not> canWriteToResponse st \<Longrightarrow> say st e = st"
  by (simp add: say_def)

lemma variants_POST_stream_aborted:
  assumes "abortedBeforeEnd (up_reads (env_upstream env))"
  shows "snd (variants_POST_stream env d messageId session ver others) = d"
proof -
  let ?st0 = "\<lparr>vs_assistantText = [], vs_clientDisconnected = False,
                  vs_streamCompletedNaturally = False, vs_resOpen = True,
                  vs_sent = [Connected (Some ver)]\<rparr>"
  have "\<not> canWriteToResponse (variantReads ?st0 (up_reads (env_upstream env)))"
    using assms by (rule variantReads_aborted)
  then show ?thesis
    by (simp add: variants_POST_stream_def Let_def)
qed

lemma storeLastApiRequest_versions [simp]:
  "messageVersions (storeLastApiRequest d sid payload) = messageVersions d"
  by (simp add: storeLastApiRequest_def)

lemma allocateVersion_db:
  "\<exists>k. alloc_db (allocateVersion d messageId others) = afterOthers (take k others) d"
  using allocate_db [of messageId "\<lparr>nextVersion = 1, retryCount = 0, attempts = [], slept = [],
        alloc_db = d, alloc_others = others\<rparr>"]
  by (auto simp: allocateVersion_def)

text \<open>
  C1: when the client disconnects during a read of a streamed variant generation, the
  request creates no variant: the table holds what it held, and what other requests
  created meanwhile; with no other request at work it is unchanged.
\<close>

theorem aborted_stream_saves_nothing:
  assumes "abortedBeforeEnd (up_reads (env_upstream env))"
  shows "(\<exists>k. messageVersions (snd (variants_POST env d messageId True))
               = messageVersions (afterOthers (take k (env_others env)) d))
       \<and> (env_others env = [] \<longrightarrow>
            messageVersions (snd (variants_POST env d messageId True)) = messageVersions d)"
proof -
  obtain k where k: "alloc_db (allocateVersion d messageId (env_others env))
                       = afterOthers (take k (env_others env)) d"
    using allocateVersion_db by blast
  have zero: "afterOthers (take 0 (env_others env)) d = d" by (simp add: afterOthers_def)
  have "messageVersions (snd (variants_POST env d messageId True)) = messageVersions d
      \<or> messageVersions (snd (variants_POST env d messageId True))
           = messageVersions (alloc_db (allocateVersion d messageId (env_others env)))"
    using variants_POST_stream_aborted [OF assms]
    by (simp add: variants_POST_def Let_def split: option.split)
  then have first: "\<exists>k. messageVersions (snd (variants_POST env d messageId True))
               = messageVersions (afterOthers (take k (env_others env)) d)"
    using k zero by metis
  have second: "env_others env = [] \<longrightarrow>
            messageVersions (snd (variants_POST env d messageId True)) = messageVersions d"
  proof
    assume e: "env_others env = []"
    from first obtain j where "messageVersions (snd (variants_POST env d messageId True))
               = messageVersions (afterOthers (take j (env_others env)) d)" by blast
    then show "messageVersions (snd (variants_POST env d messageId True)) = messageVersions d"
      by (simp add: e afterOthers_def)
  qed
  show ?thesis using first second by (rule conjI)
qed

theorem aborted_stream_saves_nothing_witness:
  "abortedBeforeEnd (up_reads (env_upstream aborted_env))
   \<and> (\<exists>k. messageVersions (snd (variants_POST aborted_env example_db 2 True))
               = messageVersions (afterOthers (take k (env_others aborted_env)) example_db))
   \<and> (env_others aborted_env = [] \<and>
            messageVersions (snd (variants_POST aborted_env example_db 2 True)) = messageVersions example_db)
   \<and> fst (variants_POST aborted_env example_db 2 True)
       = Streamed [Connected (Some 3), Content ''Take a ''] False"
proof -
  have a: "abortedBeforeEnd (up_reads (env_upstream aborted_env))" by code_simp
  have e: "env_others aborted_env = []" by code_simp
  have o: "fst (variants_POST aborted_env example_db 2 True)
       = Streamed [Connected (Some 3), Content ''Take a ''] False" by code_simp
  note t = aborted_stream_saves_nothing [OF a, of example_db 2]
  from t have t1: "\<exists>k. messageVersions (snd (variants_POST aborted_env example_db 2 True))
               = messageVersions (afterOthers (take k (env_others aborted_env)) example_db)"
    by (rule conjunct1)
  from t e have t2: "messageVersions (snd (variants_POST aborted_env example_db 2 True)) = messageVersions example_db"
    by blast
  show ?thesis using a t1 e t2 o by blast
qed

subsection \<open>Generating a variant: the version\<close>


































subsection \<open>Violations of a unique index\<close>

text \<open>
  C8, as stated, fails: when another request creates version 3 of message 2 between the
  allocation and the create of a variant that is not streamed, the create raises P2002
  and the handler answers 409, not 400.
\<close>

theorem variant_conflict_409_counterexample:
  "messageVersion_create (afterOthers (env_others late_env) example_db) 2 ''Take a seat.'' 3 = Inl P2002
   \<and> fst (variants_POST late_env example_db 2 False)
       = Respond 409 (JsonError ''Variant version conflict due to concurrent request'')"
  by code_simp

text \<open>
  C8, amended: a P2002 raised by the create or the update of a character, of a persona
  or of a character group, in a request that passed the handler's checks, is answered
  400 with an error body that names the conflict, and the database is unchanged; a
  P2002 raised by the create of a variant that is not streamed is answered 409 with an
  error body.
\<close>

theorem unique_violation_answers:
  "(truthy (cb_name cb) \<and> character_create nulls d (characterData cb) = Inl P2002 \<longrightarrow>
      characters_POST nulls d cb =
        (Respond 400
           (JsonError ''A character with this name and profile name combination already exists''), d))
   \<and> (truthy (cb_name cb) \<and> character_update nulls d cid (characterChanges cb) = Inl P2002 \<longrightarrow>
      characters_PUT nulls d (Some cid) cb =
        (Respond 400
           (JsonError ''A character with this name and profile name combination already exists''), d))
   \<and> (truthy (pb_name pb) \<and> truthy (pb_profile pb)
        \<and> persona_create nulls d (personaData pb) = Inl P2002 \<longrightarrow>
      personas_POST nulls d pb =
        (Respond 400
           (JsonError ''A persona with this name and profile name combination already exists''), d))
   \<and> (truthy (pb_name pb) \<and> truthy (pb_profile pb)
        \<and> persona_update nulls d pid (personaChanges pb) = Inl P2002 \<longrightarrow>
      personas_PUT nulls d (Some pid) pb =
        (Respond 400
           (JsonError ''A persona with this name and profile name combination already exists''), d))
   \<and> (truthy (gb_name gb) \<and> trim (orElse (gb_name gb) []) \<noteq> []
        \<and> characterGroup_create d (groupData d gb) = Inl P2002 \<longrightarrow>
      characterGroups_POST d gb = (Respond 400 (JsonError ''A group with this name already exists''), d))
   \<and> (gb_name gb \<noteq> Null \<and> characterGroup_update d gid (groupChanges gb) = Inl P2002 \<longrightarrow>
      characterGroups_PUT d (Some gid) gb
        = (Respond 400 (JsonError ''A group with this name already exists''), d))
   \<and> (up_content (env_upstream env) = Some content \<and> content \<noteq> []
        \<and> messageVersion_create (fst (access others d)) messageId content ver = Inl P2002 \<longrightarrow>
      variants_POST_plain env d messageId session ver others
        = (Respond 409 (JsonError ''Variant version conflict due to concurrent request''),
           fst (access others d)))"
proof (intro conjI impI)
  assume "truthy (cb_name cb) \<and> character_create nulls d (characterData cb) = Inl P2002"
  then show "characters_POST nulls d cb =
        (Respond 400
           (JsonError ''A character with this name and profile name combination already exists''), d)"
    by (simp add: characters_POST_def)
next
  assume "truthy (cb_name cb) \<and> character_update nulls d cid (characterChanges cb) = Inl P2002"
  then show "characters_PUT nulls d (Some cid) cb =
        (Respond 400
           (JsonError ''A character with this name and profile name combination already exists''), d)"
    by (simp add: characters_PUT_def)
next
  assume "truthy (pb_name pb) \<and> truthy (pb_profile pb)
        \<and> persona_create nulls d (personaData pb) = Inl P2002"
  then show "personas_POST nulls d pb =
        (Respond 400
           (JsonError ''A persona with this name and profile name combination already exists''), d)"
    by (simp add: personas_POST_def)
next
  assume "truthy (pb_name pb) \<and> truthy (pb_profile pb)
        \<and> persona_update nulls d pid (personaChanges pb) = Inl P2002"
  then show "personas_PUT nulls d (Some pid) pb =
        (Respond 400
           (JsonError ''A persona with this name and profile name combination already exists''), d)"
    by (simp add: personas_PUT_def)
next
  assume "truthy (gb_name gb) \<and> trim (orElse (gb_name gb) []) \<noteq> []
        \<and> characterGroup_create d (groupData d gb) = Inl P2002"
  then show "characterGroups_POST d gb = (Respond 400 (JsonError ''A group with this name already exists''), d)"
    by (simp add: characterGroups_POST_def)
next
  assume "gb_name gb \<noteq> Null \<and> characterGroup_update d gid (groupChanges gb) = Inl P2002"
  then show "characterGroups_PUT d (Some gid) gb
        = (Respond 400 (JsonError ''A group with this name already exists''), d)"
    by (simp add: characterGroups_PUT_def)
next
  assume "up_content (env_upstream env) = Some content \<and> content \<noteq> []
        \<and> messageVersion_create (fst (access others d)) messageId content ver = Inl P2002"
  then show "variants_POST_plain env d messageId session ver others
        = (Respond 409 (JsonError ''Variant version conflict due to concurrent request''),
           fst (access others d))"
    by (cases "access others d") (simp add: variants_POST_plain_def)
qed

theorem unique_violation_answers_witness:
  "(truthy (cb_name innkeeper_again)
      \<and> character_create NullsDistinct crowded_db (characterData innkeeper_again) = Inl P2002)
   \<and> characters_POST NullsDistinct crowded_db innkeeper_again =
        (Respond 400
           (JsonError ''A character with this name and profile name combination already exists''),
         crowded_db)
   \<and> character_update NullsDistinct crowded_db 2 (characterChanges innkeeper_again) = Inl P2002
   \<and> characters_PUT NullsDistinct crowded_db (Some 2) innkeeper_again =
        (Respond 400
           (JsonError ''A character with this name and profile name combination already exists''),
         crowded_db)
   \<and> (truthy (pb_name ann_again) \<and> truthy (pb_profile ann_again)
        \<and> persona_create NullsDistinct crowded_db (personaData ann_again) = Inl P2002)
   \<and> personas_POST NullsDistinct crowded_db ann_again =
        (Respond 400
           (JsonError ''A persona with this name and profile name combination already exists''),
         crowded_db)
   \<and> persona_update NullsDistinct crowded_db 2 (personaChanges ann_again) = Inl P2002
   \<and> personas_PUT NullsDistinct crowded_db (Some 2) ann_again =
        (Respond 400
           (JsonError ''A persona with this name and profile name combination already exists''),
         crowded_db)
   \<and> (truthy (gb_name regulars_again) \<and> trim (orElse (gb_name regulars_again) []) \<noteq> []
        \<and> characterGroup_create crowded_db (groupData crowded_db regulars_again) = Inl P2002)
   \<and> characterGroups_POST crowded_db regulars_again
        = (Respond 400 (JsonError ''A group with this name already exists''), crowded_db)
   \<and> (gb_name regulars_again \<noteq> Null
        \<and> characterGroup_update crowded_db 2 (groupChanges regulars_again) = Inl P2002)
   \<and> characterGroups_PUT crowded_db (Some 2) regulars_again
        = (Respond 400 (JsonError ''A group with this name already exists''), crowded_db)
   \<and> (up_content (env_upstream late_env) = Some ''Take a seat.'' \<and> ''Take a seat.'' \<noteq> []
        \<and> messageVersion_create (fst (access [[(2, 3, ''x'')]] crowded_db)) 2 ''Take a seat.'' 3
            = Inl P2002)
   \<and> variants_POST_plain late_env crowded_db 2 first_session 3 [[(2, 3, ''x'')]]
        = (Respond 409 (JsonError ''Variant version conflict due to concurrent request''),
           fst (access [[(2, 3, ''x'')]] crowded_db))"
proof -
  have h1: "truthy (cb_name innkeeper_again)
      \<and> character_create NullsDistinct crowded_db (characterData innkeeper_again) = Inl P2002"
    by code_simp
  have h2: "truthy (cb_name innkeeper_again)
      \<and> character_update NullsDistinct crowded_db 2 (characterChanges innkeeper_again) = Inl P2002"
    by code_simp
  have h3: "truthy (pb_name ann_again) \<and> truthy (pb_profile ann_again)
        \<and> persona_create NullsDistinct crowded_db (personaData ann_again) = Inl P2002"
    by code_simp
  have h4: "truthy (pb_name ann_again) \<and> truthy (pb_profile ann_again)
        \<and> persona_update NullsDistinct crowded_db 2 (personaChanges ann_again) = Inl P2002"
    by code_simp
  have h5: "truthy (gb_name regulars_again) \<and> trim (orElse (gb_name regulars_again) []) \<noteq> []
        \<and> characterGroup_create crowded_db (groupData crowded_db regulars_again) = Inl P2002"
    by code_simp
  have h6: "gb_name regulars_again \<noteq> Null
        \<and> characterGroup_update crowded_db 2 (groupChanges regulars_again) = Inl P2002"
    by code_simp
  have h7: "up_content (env_upstream late_env) = Some ''Take a seat.'' \<and> ''Take a seat.'' \<noteq> []
        \<and> messageVersion_create (fst (access [[(2, 3, ''x'')]] crowded_db)) 2 ''Take a seat.'' 3
            = Inl P2002"
    by code_simp
  note t = unique_violation_answers [where cb = innkeeper_again and nulls = NullsDistinct
      and d = crowded_db and cid = 2 and pb = ann_again and pid = 2 and gb = regulars_again
      and gid = 2 and env = late_env and content = "''Take a seat.''" and others = "[[(2, 3, ''x'')]]"
      and messageId = 2 and ver = 3 and session = first_session]
  show ?thesis using t h1 h2 h3 h4 h5 h6 h7 by blast
qed

subsection \<open>The streamed reply of the chat handler\<close>



























lemma chat_gone_iff [simp]:
  "(cs_clientDisconnected st \<or> \<not> chatCanWrite st) = (\<not> chatCanWrite st)"
  by (auto simp: chatCanWrite_def)







end
